theory Spec2Isabelle
  imports Main "HOL-Library.Word" "HOL-Library.Finite_Map"
begin

section \<open>The invoke package: responses, handlers, middleware and the Router\<close>

subsection \<open>Responses (helpers \<open>Success\<close> and \<open>Error\<close>)\<close>

text \<open>
  \<open>pb.Response\<close> has the fields \<open>Status int32\<close>, \<open>Message string\<close> and
  \<open>Payload []byte\<close>. A field that a constructor leaves out holds Go's zero value: the
  empty string, the nil slice (written \<open>[]\<close> here).
\<close>

record Response =
  Status :: "32 word"
  Message :: string
  Payload :: "8 word list"

definition Success :: "32 word \<Rightarrow> 8 word list \<Rightarrow> Response" where
  "Success status payload = \<lparr>Status = status, Message = [], Payload = payload\<rparr>"

definition Error :: "32 word \<Rightarrow> string \<Rightarrow> Response" where
  "Error status message = \<lparr>Status = status, Message = message, Payload = []\<rparr>"

text \<open>The two constants of \<open>net/http\<close> that the package uses.\<close>

definition StatusBadRequest :: "32 word" where
  "StatusBadRequest = 400"

definition StatusInternalServerError :: "32 word" where
  "StatusInternalServerError = 500"

subsection \<open>Func values, Routers and the world that handlers act on\<close>

text \<open>
  A context value is an \<open>interface{}\<close>. The package and its tests store three kinds of
  value: an \<open>[]int\<close> (the appenders of the tests), the pointer that \<open>reflect.New\<close>
  returns (\<open>JSONParser\<close>) and a \<open>time.Time\<close> (\<open>TimestampParser\<close>).
\<close>

datatype 't Value = IntSlice "int list" | Pointer nat | Time 't

text \<open>
  A value of type \<open>Handler\<close> or \<open>Middleware\<close> is a func value: nil, a function of the
  program (named by a number; what it does is given by the program, see \<open>Funcs\<close> below),
  or the closure that \<open>use\<close> makes, which holds its \<open>tmpMW\<close> and its \<open>tmpH\<close>. Func
  values are what the registry and the middleware chain of a Router store.
\<close>

datatype HandlerValue = NilFunc | HandlerFunc nat | UseClosure nat HandlerValue

type_synonym MiddlewareValue = nat

text \<open>
  The struct \<open>Router\<close>. A Go map is a reference: \<open>Context\<close> and \<open>invokeMap\<close> hold the
  address of a map object of the world, or nothing (the nil map); every copy of a Router
  (the middleware constructors take the Router by value) shares the two maps. The zero
  value of the struct has nil maps and an empty chain.
\<close>

record Router =
  Context :: "nat option"
  invokeMap :: "nat option"
  middlewareChain :: "MiddlewareValue list"

definition zeroRouter :: Router where
  "zeroRouter = \<lparr>Context = None, invokeMap = None, middlewareChain = []\<rparr>"

text \<open>
  The world: \<open>mapStore\<close> holds the objects of type \<open>map[string]interface{}\<close> and
  \<open>handlerMaps\<close> those of type \<open>map[string]Handler\<close>, each at its address (a Go map is
  finite); \<open>routers\<close> holds the Router variables, which the methods reach through their
  pointer receiver; \<open>heap\<close> holds the objects allocated by \<open>reflect.New\<close>, \<open>log\<close> the
  lines written through \<open>Logger\<close>. Handlers and middleware run on the whole world: one
  that holds a pointer to a Router can register handlers or add middleware while a call
  is dispatched.
\<close>

record ('v, 't) World =
  mapStore :: "(string \<rightharpoonup> 't Value) list"
  heap :: "'v list"
  log :: "string list"
  handlerMaps :: "(string, HandlerValue) fmap list"
  routers :: "nat \<Rightarrow> Router"

text \<open>A run-time panic of Go is a value; the world reached when it was raised is kept.\<close>

datatype panic =
    IndexOutOfRange int nat
  | NilMapAssignment
  | InterfaceConversion
  | NilFuncCall

text \<open>
  Of \<open>shim.ChaincodeStubInterface\<close> the router needs \<open>GetFunctionAndParameters\<close> only.
\<close>

record ChaincodeStub =
  GetFunctionAndParameters :: "string \<times> string list"

text \<open>What calling a func value of type \<open>Handler\<close> or \<open>Middleware\<close> does.\<close>

type_synonym ('v, 't) Outcome = "(panic + Response) \<times> ('v, 't) World"

type_synonym ('v, 't) Handler =
  "ChaincodeStub \<Rightarrow> string list \<Rightarrow> ('v, 't) World \<Rightarrow> ('v, 't) Outcome"

type_synonym ('v, 't) Middleware =
  "ChaincodeStub \<Rightarrow> string list \<Rightarrow> ('v, 't) Handler \<Rightarrow> ('v, 't) World \<Rightarrow> ('v, 't) Outcome"

text \<open>The nil func value: calling it panics.\<close>

definition nilHandler :: "('v, 't) Handler" where
  "nilHandler stub args w = (Inl NilFuncCall, w)"

subsection \<open>Composition: \<open>Handler.use\<close>\<close>

text \<open>
  The loop of \<open>use\<close> runs \<open>i\<close> from \<open>len(m) - 1\<close> down to \<open>0\<close>; each round binds
  \<open>tmpMW := m[i]\<close>, \<open>tmpH := h\<close> and replaces \<open>h\<close> by the closure that calls
  \<open>tmpMW(stub, args, tmpH)\<close>.
\<close>

function use_loop ::
  "('v, 't) Handler \<Rightarrow> ('v, 't) Middleware list \<Rightarrow> int \<Rightarrow> ('v, 't) Handler" where
  "use_loop h m i =
     (if i \<ge> 0
      then (let tmpMW = m ! nat i; tmpH = h
            in use_loop (\<lambda>stub args. tmpMW stub args tmpH) m (i - 1))
      else h)"
  by pat_completeness auto
termination
  by (relation "measure (\<lambda>(h, m, i). nat (i + 1))") auto

declare use_loop.simps [simp del]

definition use :: "('v, 't) Handler \<Rightarrow> ('v, 't) Middleware list \<Rightarrow> ('v, 't) Handler" where
  "use h m = use_loop h m (int (length m) - 1)"

text \<open>
  \<open>use\<close> above is the loop on what the func values do. The same loop on the func values
  themselves, as the Router stores them: the closure of each round is the value
  \<open>UseClosure tmpMW tmpH\<close>. The functions of the program are given by \<open>Funcs\<close>;
  calling a closure of \<open>use\<close> calls its \<open>tmpMW\<close> with its \<open>tmpH\<close> as "next", so that
  calling \<open>useValue h m\<close> does what \<open>use\<close> of the behaviours does (lemma
  \<open>callHandler_useValue\<close>).
\<close>

function useValue_loop ::
  "HandlerValue \<Rightarrow> MiddlewareValue list \<Rightarrow> int \<Rightarrow> HandlerValue" where
  "useValue_loop h m i =
     (if i \<ge> 0
      then (let tmpMW = m ! nat i; tmpH = h
            in useValue_loop (UseClosure tmpMW tmpH) m (i - 1))
      else h)"
  by pat_completeness auto
termination
  by (relation "measure (\<lambda>(h, m, i). nat (i + 1))") auto

declare useValue_loop.simps [simp del]

definition useValue :: "HandlerValue \<Rightarrow> MiddlewareValue list \<Rightarrow> HandlerValue" where
  "useValue h m = useValue_loop h m (int (length m) - 1)"

record ('v, 't) Funcs =
  handlerCode :: "nat \<Rightarrow> ('v, 't) Handler"
  middlewareCode :: "nat \<Rightarrow> ('v, 't) Middleware"

fun callHandler :: "('v, 't) Funcs \<Rightarrow> HandlerValue \<Rightarrow> ('v, 't) Handler" where
  "callHandler F NilFunc = nilHandler"
| "callHandler F (HandlerFunc f) = handlerCode F f"
| "callHandler F (UseClosure tmpMW tmpH) =
     (\<lambda>stub args. middlewareCode F tmpMW stub args (callHandler F tmpH))"

subsection \<open>Maps\<close>

text \<open>
  Reading and writing the map that a reference names: \<open>m[k]\<close> and \<open>m[k] = v\<close>.
  Reading the nil map finds no key; assigning to it panics. An address at which the world
  holds no map, which no run of the program produces, is read and written as the nil map.
\<close>

definition mapIndex :: "nat option \<Rightarrow> string \<Rightarrow> ('v, 't) World \<Rightarrow> 't Value option" where
  "mapIndex m k w =
     (case m of
        None \<Rightarrow> None
      | Some a \<Rightarrow> (if a < length (mapStore w) then (mapStore w ! a) k else None))"

definition mapAssign ::
  "nat option \<Rightarrow> string \<Rightarrow> 't Value \<Rightarrow> ('v, 't) World \<Rightarrow> panic + ('v, 't) World" where
  "mapAssign m k v w =
     (case m of
        None \<Rightarrow> Inl NilMapAssignment
      | Some a \<Rightarrow>
          (if a < length (mapStore w)
           then Inr (w\<lparr>mapStore := (mapStore w)[a := (mapStore w ! a)(k \<mapsto> v)]\<rparr>)
           else Inl NilMapAssignment))"

definition handlerMapIndex ::
  "nat option \<Rightarrow> string \<Rightarrow> ('v, 't) World \<Rightarrow> HandlerValue option" where
  "handlerMapIndex m k w =
     (case m of
        None \<Rightarrow> None
      | Some a \<Rightarrow> (if a < length (handlerMaps w) then fmlookup (handlerMaps w ! a) k else None))"

definition handlerMapAssign ::
  "nat option \<Rightarrow> string \<Rightarrow> HandlerValue \<Rightarrow> ('v, 't) World \<Rightarrow> panic + ('v, 't) World" where
  "handlerMapAssign m k v w =
     (case m of
        None \<Rightarrow> Inl NilMapAssignment
      | Some a \<Rightarrow>
          (if a < length (handlerMaps w)
           then Inr (w\<lparr>handlerMaps := (handlerMaps w)[a := fmupd k v (handlerMaps w ! a)]\<rparr>)
           else Inl NilMapAssignment))"

subsection \<open>The Router\<close>

text \<open>
  \<open>NewRouter\<close> makes the two maps and returns the struct; the caller keeps it in a
  variable. The methods take the address \<open>r\<close> of that variable: every address names
  a Router variable, and one that was never assigned holds the zero value.
\<close>

definition NewRouter :: "('v, 't) World \<Rightarrow> Router \<times> ('v, 't) World" where
  "NewRouter w =
     (\<lparr>Context = Some (length (mapStore w)), invokeMap = Some (length (handlerMaps w)),
       middlewareChain = []\<rparr>,
      w\<lparr>mapStore := mapStore w @ [Map.empty], handlerMaps := handlerMaps w @ [fmempty]\<rparr>)"

definition Use :: "nat \<Rightarrow> MiddlewareValue list \<Rightarrow> ('v, 't) World \<Rightarrow> ('v, 't) World" where
  "Use r mws w =
     w\<lparr>routers := (routers w)
          (r := (routers w r)\<lparr>middlewareChain := middlewareChain (routers w r) @ mws\<rparr>)\<rparr>"

text \<open>
  \<open>RegisterHandler\<close>: the assignment to the registry panics when the registry is the nil
  map; the value returned is read back from the registry (the nil func for a key that is
  not there).
\<close>

definition RegisterHandler ::
  "nat \<Rightarrow> string \<Rightarrow> HandlerValue \<Rightarrow> MiddlewareValue list \<Rightarrow> ('v, 't) World
   \<Rightarrow> (panic + HandlerValue) \<times> ('v, 't) World" where
  "RegisterHandler r functionName h mws w =
     (case handlerMapAssign (invokeMap (routers w r)) functionName (useValue h mws) w of
        Inl p \<Rightarrow> (Inl p, w)
      | Inr w' \<Rightarrow>
          (case handlerMapIndex (invokeMap (routers w' r)) functionName w' of
             Some fn \<Rightarrow> (Inr fn, w')
           | None \<Rightarrow> (Inr NilFunc, w')))"

text \<open>
  \<open>Invoke\<close> returns the response (or the panic that escapes it) and the world.
  \<open>fmt.Errorf\<close> puts the function name between double quotes (\<open>CHR 0x22\<close>).
\<close>

definition invalidInvokeFunction :: "string \<Rightarrow> string" where
  "invalidInvokeFunction function_name =
     ''invalid invoke function '' @ [CHR 0x22] @ function_name @ [CHR 0x22]"

definition Invoke ::
  "('v, 't) Funcs \<Rightarrow> nat \<Rightarrow> ChaincodeStub \<Rightarrow> ('v, 't) World \<Rightarrow> ('v, 't) Outcome" where
  "Invoke F r stub w =
     (let (function_name, args) = GetFunctionAndParameters stub
      in case handlerMapIndex (invokeMap (routers w r)) function_name w of
           None \<Rightarrow>
             (let err = invalidInvokeFunction function_name
              in (Inr (Error StatusBadRequest err), w\<lparr>log := log w @ [err]\<rparr>))
         | Some fn \<Rightarrow>
             (let fn = useValue fn (middlewareChain (routers w r));
                  result = callHandler F fn stub args w
              in result))"

subsection \<open>Formatting and indexing\<close>

text \<open>The verb \<open>%d\<close> of \<open>fmt.Sprintf\<close>: a decimal numeral, with a minus sign below zero.\<close>

fun natDecimal :: "nat \<Rightarrow> string" where
  "natDecimal n =
     (if n < 10 then [''0123456789'' ! n]
      else natDecimal (n div 10) @ [''0123456789'' ! (n mod 10)])"

declare natDecimal.simps [simp del]

definition formatD :: "int \<Rightarrow> string" where
  "formatD i = (if i < 0 then CHR ''-'' # natDecimal (nat (- i)) else natDecimal (nat i))"

text \<open>The index expression \<open>args[i]\<close> on a slice: out of range, it panics.\<close>

definition indexArgs :: "string list \<Rightarrow> int \<Rightarrow> panic + string" where
  "indexArgs args i =
     (if 0 \<le> i \<and> i < int (length args) then Inr (args ! nat i)
      else Inl (IndexOutOfRange i (length args)))"

subsection \<open>The middleware of the package\<close>

text \<open>
  \<open>ArgCounter\<close>: the \<open>range\<close> loop over \<open>expected\<close> writes each name to the buffer
  \<open>res\<close> and a comma after every name but the last; \<open>i\<close> is the loop index and \<open>n\<close>
  is \<open>len(expected)\<close>.
\<close>

fun writeExpected :: "string list \<Rightarrow> int \<Rightarrow> int \<Rightarrow> string \<Rightarrow> string" where
  "writeExpected [] i n res = res"
| "writeExpected (arg # rest) i n res =
     (let res = res @ arg;
          res = (if i < n - 1 then res @ '', '' else res)
      in writeExpected rest (i + 1) n res)"

definition ArgCounter :: "string list \<Rightarrow> ('v, 't) Middleware" where
  "ArgCounter expected = (\<lambda>stub args next w.
     if length args \<noteq> length expected
     then (let res = ''incorrect number of arguments, expected ''
                       @ formatD (int (length expected));
               res = (if length expected > 0
                      then writeExpected expected 0 (int (length expected)) (res @ '': '')
                      else res);
               err = res
           in (Inr (Error StatusBadRequest err), w\<lparr>log := log w @ [err]\<rparr>))
     else next stub args w)"

text \<open>
  \<open>JSONParser\<close>. The libraries are parameters: \<open>reflect_New valueType\<close> is the zero
  value of the type, which \<open>reflect.New\<close> allocates (at the next free address of the
  heap) and returns a pointer to; \<open>json_Unmarshal b obj\<close> is the error of
  \<open>json.Unmarshal\<close>, if any, with the object as the call leaves it. \<open>valueType\<close> is a
  type, not the nil \<open>reflect.Type\<close>.
\<close>

definition JSONParser ::
  "('ty \<Rightarrow> 'v) \<Rightarrow> (string \<Rightarrow> 'v \<Rightarrow> string option \<times> 'v)
   \<Rightarrow> Router \<Rightarrow> int \<Rightarrow> string \<Rightarrow> 'ty \<Rightarrow> ('v, 't) Middleware" where
  "JSONParser reflect_New json_Unmarshal router argIndex contextKey valueType =
     (\<lambda>stub args next w.
        if argIndex \<ge> int (length args)
        then (let err = ''argIndex '' @ formatD argIndex
                          @ '' was greater than length of args''
              in (Inr (Error StatusInternalServerError (''error unmarshalling json: '' @ err)),
                  w\<lparr>log := log w @ [err]\<rparr>))
        else (case indexArgs args argIndex of
                Inl p \<Rightarrow> (Inl p, w)
              | Inr b \<Rightarrow>
                  (let jsonValue = length (heap w);
                       w1 = w\<lparr>heap := heap w @ [reflect_New valueType]\<rparr>;
                       (err, obj) = json_Unmarshal b (heap w1 ! jsonValue);
                       w2 = w1\<lparr>heap := (heap w1)[jsonValue := obj]\<rparr>
                   in (case err of
                         Some e \<Rightarrow>
                           (Inr (Error StatusBadRequest (''error unmarshalling json: '' @ e)),
                            w2\<lparr>log := log w2 @ [e]\<rparr>)
                       | None \<Rightarrow>
                           (case mapAssign (Context router) contextKey (Pointer jsonValue) w2 of
                              Inl p \<Rightarrow> (Inl p, w2)
                            | Inr w3 \<Rightarrow> next stub args w3)))))"

text \<open>
  \<open>TimestampParser\<close>; \<open>time_Parse layout value\<close> is the result of \<open>time.Parse\<close>, an
  error message or a time.
\<close>

definition TimestampParser ::
  "(string \<Rightarrow> string \<Rightarrow> string + 't)
   \<Rightarrow> Router \<Rightarrow> int \<Rightarrow> string \<Rightarrow> string \<Rightarrow> ('v, 't) Middleware" where
  "TimestampParser time_Parse router argIndex timeFormat contextKey =
     (\<lambda>stub args next w.
        if argIndex \<ge> int (length args)
        then (let err = ''argIndex '' @ formatD argIndex
                          @ '' was greater than length of args''
              in (Inr (Error StatusInternalServerError (''error parsing time: '' @ err)),
                  w\<lparr>log := log w @ [err]\<rparr>))
        else (case indexArgs args argIndex of
                Inl p \<Rightarrow> (Inl p, w)
              | Inr a \<Rightarrow>
                  (case time_Parse timeFormat a of
                     Inl e \<Rightarrow>
                       (Inr (Error StatusBadRequest (''error parsing time string: '' @ e)),
                        w\<lparr>log := log w @ [e]\<rparr>)
                   | Inr ts \<Rightarrow>
                       (case mapAssign (Context router) contextKey (Time ts) w of
                          Inl p \<Rightarrow> (Inl p, w)
                        | Inr w' \<Rightarrow> next stub args w'))))"

subsection \<open>The appenders of the tests\<close>

text \<open>
  \<open>mwIntAppender\<close> and \<open>hIntAppender\<close> of \<open>handler_test.go\<close> read the \<open>[]int\<close> under
  the key (the type assertion panics on anything else), append their value and write the
  slice back; the middleware then calls \<open>next\<close>, the handler returns \<open>Success(200, nil)\<close>.
\<close>

definition mwIntAppender :: "Router \<Rightarrow> string \<Rightarrow> int \<Rightarrow> ('v, 't) Middleware" where
  "mwIntAppender router contextKey val = (\<lambda>stub args next w.
     case mapIndex (Context router) contextKey w of
       Some (IntSlice arr) \<Rightarrow>
         (let arr = arr @ [val]
          in case mapAssign (Context router) contextKey (IntSlice arr) w of
               Inl p \<Rightarrow> (Inl p, w)
             | Inr w' \<Rightarrow> next stub args w')
     | _ \<Rightarrow> (Inl InterfaceConversion, w))"

definition hIntAppender :: "Router \<Rightarrow> string \<Rightarrow> int \<Rightarrow> ('v, 't) Handler" where
  "hIntAppender router contextKey val = (\<lambda>stub args w.
     case mapIndex (Context router) contextKey w of
       Some (IntSlice arr) \<Rightarrow>
         (let arr = arr @ [val]
          in case mapAssign (Context router) contextKey (IntSlice arr) w of
               Inl p \<Rightarrow> (Inl p, w)
             | Inr w' \<Rightarrow> (Inr (Success 200 []), w'))
     | _ \<Rightarrow> (Inl InterfaceConversion, w))"

subsection \<open>The set-up of \<open>TestInvoke\<close>\<close>

text \<open>
  \<open>TestInvoke\<close> of the router's tests makes a Router in a fresh world and keeps it in
  the variable at address 0: the context slot \<open>test\<close> holds an empty \<open>[]int\<close>, the
  global middleware appends 1, the handler registered under \<open>endpoint\<close> appends 4 and its
  own middleware append 2 and 3. In \<open>emptyWorld\<close> every Router variable holds the zero
  value. The func values of the test are the appenders: the handler named \<open>n\<close> and the
  middleware named \<open>n\<close> append \<open>n\<close>; each holds a copy of the Router, of which it reads
  \<open>Context\<close> only.
\<close>

definition emptyWorld :: "(string, nat) World" where
  "emptyWorld =
     \<lparr>mapStore = [], heap = [], log = [], handlerMaps = [], routers = (\<lambda>r. zeroRouter)\<rparr>"

definition TestInvoke_router :: Router where
  "TestInvoke_router = fst (NewRouter emptyWorld)"

definition TestInvoke_funcs :: "(string, nat) Funcs" where
  "TestInvoke_funcs =
     \<lparr>handlerCode = (\<lambda>val. hIntAppender TestInvoke_router ''test'' (int val)),
      middlewareCode = (\<lambda>val. mwIntAppender TestInvoke_router ''test'' (int val))\<rparr>"

text \<open>
  The assignment to the slot and the registration cannot panic, the maps having just been
  made: the branches \<open>Inl\<close> below are never taken.
\<close>

definition TestInvoke_setup :: "(string, nat) World" where
  "TestInvoke_setup =
     (let (router, w) = NewRouter emptyWorld;
          w = w\<lparr>routers := (routers w)(0 := router)\<rparr>;
          key = ''test''
      in case mapAssign (Context (routers w 0)) key (IntSlice []) w of
           Inl p \<Rightarrow> w
         | Inr w \<Rightarrow>
             (let endpoint = ''endpoint'';
                  w = Use 0 [1] w;
                  (h, w) = RegisterHandler 0 endpoint (HandlerFunc 4) [2, 3] w
              in w))"

section \<open>The specification's vocabulary\<close>

text \<open>
  The composition as the specification words it: the first middleware runs first and
  receives as "next" the composition of the remaining stages; with no middleware left,
  the stage is the handler.
\<close>

fun composition :: "('v, 't) Handler \<Rightarrow> ('v, 't) Middleware list \<Rightarrow> ('v, 't) Handler" where
  "composition h [] = h"
| "composition h (m0 # rest) = (\<lambda>stub args. m0 stub args (composition h rest))"

text \<open>
  A middleware that delegates: it does its own work \<open>f\<close> on the world and returns what
  "next" returns, called with the same stub and arguments (the shape of every middleware
  of the package on its success path).
\<close>

definition thenNext ::
  "(ChaincodeStub \<Rightarrow> string list \<Rightarrow> ('v, 't) World \<Rightarrow> ('v, 't) World) \<Rightarrow> ('v, 't) Middleware" where
  "thenNext f = (\<lambda>stub args next w. next stub args (f stub args w))"

text \<open>
  The message of the argument-count guard as the specification words it: the count, a
  colon, and the expected names in order, separated by commas, with no trailing comma.
\<close>

fun commaSeparated :: "string list \<Rightarrow> string" where
  "commaSeparated [] = []"
| "commaSeparated [name] = name"
| "commaSeparated (name # next_name # names) =
     name @ '', '' @ commaSeparated (next_name # names)"

definition argumentCountMessage :: "string list \<Rightarrow> string" where
  "argumentCountMessage expected =
     ''incorrect number of arguments, expected '' @ formatD (int (length expected))
       @ '': '' @ commaSeparated expected"

text \<open>
  A middleware does not invoke "next", on a given stub, arguments and world, when what
  it returns there is the same whatever "next" is.
\<close>

definition ignoresNext ::
  "('v, 't) Middleware \<Rightarrow> ChaincodeStub \<Rightarrow> string list \<Rightarrow> ('v, 't) World \<Rightarrow> bool" where
  "ignoresNext mi stub args w = (\<forall>next next'. mi stub args next w = mi stub args next' w)"

text \<open>
  The middleware \<open>pre\<close> before a stage all delegate, from the call
  \<open>(stub, args, w)\<close> on: each returns exactly what its "next" returns, and the last
  "next" is called with \<open>(stub', args', w')\<close>.
\<close>

fun delegatesTo ::
  "('v, 't) Middleware list \<Rightarrow> ChaincodeStub \<times> string list \<times> ('v, 't) World
   \<Rightarrow> ChaincodeStub \<times> string list \<times> ('v, 't) World \<Rightarrow> bool" where
  "delegatesTo [] c c' = (c' = c)"
| "delegatesTo (m # ms) (stub, args, w) c' =
     (\<exists>stub1 args1 w1.
        (\<forall>next. m stub args next w = next stub1 args1 w1)
        \<and> delegatesTo ms (stub1, args1, w1) c')"

text \<open>A reference names a map that exists: it is not nil.\<close>

definition mapExists :: "nat option \<Rightarrow> ('v, 't) World \<Rightarrow> bool" where
  "mapExists m w = (case m of None \<Rightarrow> False | Some a \<Rightarrow> a < length (mapStore w))"

definition handlerMapExists :: "nat option \<Rightarrow> ('v, 't) World \<Rightarrow> bool" where
  "handlerMapExists m w = (case m of None \<Rightarrow> False | Some a \<Rightarrow> a < length (handlerMaps w))"

text \<open>
  A handler leaves the Routers alone when no call of it changes a Router variable or a
  registry; a middleware does when it is so with every "next" that does.
\<close>

definition leavesRouters :: "('v, 't) Handler \<Rightarrow> bool" where
  "leavesRouters h =
     (\<forall>stub args w. routers (snd (h stub args w)) = routers w
                    \<and> handlerMaps (snd (h stub args w)) = handlerMaps w)"

definition middlewareLeavesRouters :: "('v, 't) Middleware \<Rightarrow> bool" where
  "middlewareLeavesRouters m =
     (\<forall>next. leavesRouters next \<longrightarrow> leavesRouters (\<lambda>stub args. m stub args next))"

subsection \<open>Example inputs\<close>

text \<open>
  Func values that the types \<open>Handler\<close> and \<open>Middleware\<close> admit and the package does
  not contain. \<open>mwOverride\<close> calls "next", drops the response it gets and answers with
  an error of its own (a panic of "next" passes through it). \<open>hSuccess\<close> answers 200. \<open>registeringHandler\<close> holds the
  pointer to the Router variable at address 0: it registers the handler named 1 under
  \<open>late\<close>, adds the middleware named 7 to the global chain and answers 200.
\<close>

definition mwOverride :: "(string, nat) Middleware" where
  "mwOverride = (\<lambda>stub args next w.
     case next stub args w of
       (Inl p, w') \<Rightarrow> (Inl p, w')
     | (Inr result, w') \<Rightarrow> (Inr (Error StatusInternalServerError ''overridden''), w'))"

definition hSuccess :: "(string, nat) Handler" where
  "hSuccess = (\<lambda>stub args w. (Inr (Success 200 []), w))"

definition registeringHandler :: "(string, nat) Handler" where
  "registeringHandler = (\<lambda>stub args w.
     case RegisterHandler 0 ''late'' (HandlerFunc 1) [] w of
       (Inl p, w') \<Rightarrow> (Inl p, w')
     | (Inr h, w') \<Rightarrow> (Inr (Success 200 []), Use 0 [7] w'))"

definition registeringFuncs :: "(string, nat) Funcs" where
  "registeringFuncs =
     \<lparr>handlerCode = (\<lambda>f. if f = 0 then registeringHandler else hSuccess),
      middlewareCode = (\<lambda>m. thenNext (\<lambda>stub args w. w))\<rparr>"

text \<open>A Router at address 0 whose registry holds \<open>registeringHandler\<close> under \<open>endpoint\<close>.\<close>

definition registeringWorld :: "(string, nat) World" where
  "registeringWorld =
     (let (router, w) = NewRouter emptyWorld;
          w = w\<lparr>routers := (routers w)(0 := router)\<rparr>;
          (h, w) = RegisterHandler 0 ''endpoint'' (HandlerFunc 0) [] w
      in w)"

text \<open>
  A type for \<open>JSONParser\<close> whose objects are strings: the zero value is the empty string
  and the only text that unmarshals is \<open>{}\<close>.
\<close>

definition textNew :: "unit \<Rightarrow> string" where
  "textNew ty = []"

definition textUnmarshal :: "string \<Rightarrow> string \<Rightarrow> string option \<times> string" where
  "textUnmarshal b obj = (if b = ''{}'' then (None, b) else (Some ''invalid character'', obj))"

section \<open>Properties of composition\<close>

lemma use_loop_neg: "i < 0 \<Longrightarrow> use_loop h m i = h"
  by (simp add: use_loop.simps)

lemma use_Nil: "use h [] = h"
  by (simp add: use_def use_loop_neg)

lemma composition_append:
  "composition h (xs @ ys) = composition (composition h ys) xs"
  by (induction xs) simp_all

text \<open>After the rounds for the indices below \<open>n\<close>, the loop has composed \<open>take n m\<close>.\<close>

lemma use_loop_composition:
  "n \<le> length m \<Longrightarrow> use_loop h m (int n - 1) = composition h (take n m)"
proof (induction n arbitrary: h)
  case 0
  then show ?case by (simp add: use_loop_neg)
next
  case (Suc n)
  have "use_loop h m (int (Suc n) - 1)
          = use_loop (\<lambda>stub args. (m ! n) stub args h) m (int n - 1)"
    by (subst use_loop.simps) (simp add: Let_def)
  also have "\<dots> = composition (\<lambda>stub args. (m ! n) stub args h) (take n m)"
    using Suc by simp
  also have "\<dots> = composition h (take n m @ [m ! n])"
    by (simp add: composition_append)
  also have "\<dots> = composition h (take (Suc n) m)"
    using Suc.prems by (simp add: take_Suc_conv_app_nth)
  finally show ?case .
qed

lemma use_composition: "use h m = composition h m"
  using use_loop_composition [of "length m" m h] by (simp add: use_def)

lemma use_Cons: "use h (m0 # rest) = (\<lambda>stub args. m0 stub args (use h rest))"
  by (simp add: use_composition)

lemma use_append: "use h (xs @ ys) = use (use h ys) xs"
  by (simp add: use_composition composition_append)

lemma use_thenNext:
  "use h (map thenNext fs) stub args w = h stub args (fold (\<lambda>f. f stub args) fs w)"
  by (induction fs arbitrary: w) (simp_all add: use_Nil use_Cons thenNext_def)

lemma composition_foldr:
  "composition h m = foldr (\<lambda>tmpMW tmpH stub args. tmpMW stub args tmpH) m h"
  by (induction m) simp_all

lemma use_fold_rev:
  "use h m = fold (\<lambda>tmpMW tmpH stub args. tmpMW stub args tmpH) (rev m) h"
  by (simp add: use_composition composition_foldr foldr_conv_fold)

text \<open>
  C7: a handler composed with no middleware is the handler itself; called on any stub,
  arguments and world it gives the response and the world that the handler gives.
\<close>

theorem use_no_middleware_identity:
  "use h [] = h \<and> use h [] stub args w = h stub args w"
  by (simp add: use_Nil)

text \<open>
  C2: \<open>use h (m0 # rest)\<close>, when invoked, calls \<open>m0\<close> first, and the "next" that \<open>m0\<close>
  receives is the composition of the remaining stages with \<open>h\<close>; as a whole \<open>use\<close> is
  the composition in declaration order, although it is built by wrapping along the
  reversed list; when every middleware delegates, their work is done in declaration order
  and \<open>h\<close> is invoked last. \<open>use\<close> itself takes no world: it only builds the handler.
\<close>

theorem use_declaration_order:
  "use h (m0 # rest) stub args w = m0 stub args (use h rest) w
   \<and> use h m = composition h m
   \<and> use h m = fold (\<lambda>tmpMW tmpH stub args. tmpMW stub args tmpH) (rev m) h
   \<and> use h (map thenNext fs) stub args w = h stub args (fold (\<lambda>f. f stub args) fs w)"
proof -
  have "use h (m0 # rest) stub args w = m0 stub args (use h rest) w"
    by (simp add: use_Cons)
  moreover have "use h m = composition h m"
    by (rule use_composition)
  moreover have "use h m = fold (\<lambda>tmpMW tmpH stub args. tmpMW stub args tmpH) (rev m) h"
    by (rule use_fold_rev)
  moreover have "use h (map thenNext fs) stub args w = h stub args (fold (\<lambda>f. f stub args) fs w)"
    by (rule use_thenNext)
  ultimately show ?thesis by blast
qed

section \<open>Properties of the Router\<close>

lemma useValue_loop_neg: "i < 0 \<Longrightarrow> useValue_loop h m i = h"
  by (simp add: useValue_loop.simps)

lemma useValue_loop_foldr:
  "n \<le> length m \<Longrightarrow> useValue_loop h m (int n - 1) = foldr UseClosure (take n m) h"
proof (induction n arbitrary: h)
  case 0
  then show ?case by (simp add: useValue_loop_neg)
next
  case (Suc n)
  have "useValue_loop h m (int (Suc n) - 1) = useValue_loop (UseClosure (m ! n) h) m (int n - 1)"
    by (subst useValue_loop.simps) (simp add: Let_def)
  also have "\<dots> = foldr UseClosure (take n m) (UseClosure (m ! n) h)"
    using Suc by simp
  also have "\<dots> = foldr UseClosure (take (Suc n) m) h"
    using Suc.prems by (simp add: take_Suc_conv_app_nth)
  finally show ?case .
qed

lemma useValue_foldr: "useValue h m = foldr UseClosure m h"
  using useValue_loop_foldr [of "length m" m h] by (simp add: useValue_def)

lemma useValue_Nil: "useValue h [] = h"
  by (simp add: useValue_foldr)

lemma useValue_Cons: "useValue h (m0 # rest) = UseClosure m0 (useValue h rest)"
  by (simp add: useValue_foldr)

text \<open>Calling the value that \<open>use\<close> builds does what \<open>use\<close> of the behaviours does.\<close>

lemma callHandler_useValue:
  "callHandler F (useValue h m) = use (callHandler F h) (map (middlewareCode F) m)"
  by (induction m) (simp_all add: useValue_Nil useValue_Cons use_Nil use_Cons)

lemma Invoke_not_found:
  "GetFunctionAndParameters stub = (name, args) \<Longrightarrow>
   handlerMapIndex (invokeMap (routers w r)) name w = None \<Longrightarrow>
   Invoke F r stub w =
     (Inr (Error StatusBadRequest (invalidInvokeFunction name)),
      w\<lparr>log := log w @ [invalidInvokeFunction name]\<rparr>)"
  by (simp add: Invoke_def Let_def)

lemma Invoke_found:
  "GetFunctionAndParameters stub = (name, args) \<Longrightarrow>
   handlerMapIndex (invokeMap (routers w r)) name w = Some fn \<Longrightarrow>
   Invoke F r stub w =
     use (callHandler F fn) (map (middlewareCode F) (middlewareChain (routers w r))) stub args w"
  by (simp add: Invoke_def Let_def callHandler_useValue)

lemma handlerMapAssign_exists:
  "a < length (handlerMaps w) \<Longrightarrow>
   handlerMapAssign (Some a) k v w =
     Inr (w\<lparr>handlerMaps := (handlerMaps w)[a := fmupd k v (handlerMaps w ! a)]\<rparr>)"
  by (simp add: handlerMapAssign_def)

lemma RegisterHandler_exists:
  "invokeMap (routers w r) = Some a \<Longrightarrow> a < length (handlerMaps w) \<Longrightarrow>
   RegisterHandler r functionName h mws w =
     (Inr (useValue h mws),
      w\<lparr>handlerMaps := (handlerMaps w)[a := fmupd functionName (useValue h mws) (handlerMaps w ! a)]\<rparr>)"
  by (simp add: RegisterHandler_def handlerMapAssign_def handlerMapIndex_def)

lemma RegisterHandler_nil:
  "\<not> handlerMapExists (invokeMap (routers w r)) w \<Longrightarrow>
   RegisterHandler r functionName h mws w = (Inl NilMapAssignment, w)"
  by (simp add: RegisterHandler_def handlerMapAssign_def handlerMapExists_def
      split: option.splits)

lemma TestInvoke_router_eq:
  "TestInvoke_router = \<lparr>Context = Some 0, invokeMap = Some 0, middlewareChain = []\<rparr>"
  by (simp add: TestInvoke_router_def NewRouter_def emptyWorld_def)

lemma TestInvoke_setup_eq:
  "TestInvoke_setup =
     \<lparr>mapStore = [[''test'' \<mapsto> IntSlice []]], heap = [], log = [],
      handlerMaps = [fmupd ''endpoint'' (useValue (HandlerFunc 4) [2, 3]) fmempty],
      routers = (\<lambda>r. zeroRouter)
        (0 := \<lparr>Context = Some 0, invokeMap = Some 0, middlewareChain = [1]\<rparr>)\<rparr>"
  by (simp add: TestInvoke_setup_def NewRouter_def emptyWorld_def mapAssign_def Let_def Use_def
      RegisterHandler_def handlerMapAssign_def handlerMapIndex_def)

lemma TestInvoke_setup_lookup:
  "handlerMapIndex (invokeMap (routers TestInvoke_setup 0)) name TestInvoke_setup =
     (if name = ''endpoint'' then Some (useValue (HandlerFunc 4) [2, 3]) else None)"
  by (simp add: TestInvoke_setup_eq handlerMapIndex_def)

lemma TestInvoke_setup_middlewareChain:
  "middlewareChain (routers TestInvoke_setup 0) = [1]"
  by (simp add: TestInvoke_setup_eq)

text \<open>
  C4: a call whose function name is not a key of the registry gets exactly
  \<open>Error(400, "invalid invoke function \"<name>\"")\<close>; the world gains the logged line
  only, so no handler and no middleware has run. For a registered name the dispatcher
  adds nothing of its own: the response and the world are those of the handler found,
  composed with the global chain.
\<close>

theorem Invoke_unregistered_function:
  assumes "GetFunctionAndParameters stub = (name, args)"
  shows "(handlerMapIndex (invokeMap (routers w r)) name w = None \<longrightarrow>
            Invoke F r stub w =
              (Inr (Error 400 (''invalid invoke function '' @ [CHR 0x22] @ name @ [CHR 0x22])),
               w\<lparr>log := log w
                   @ [''invalid invoke function '' @ [CHR 0x22] @ name @ [CHR 0x22]]\<rparr>))
       \<and> (\<forall>fn. handlerMapIndex (invokeMap (routers w r)) name w = Some fn \<longrightarrow>
            Invoke F r stub w =
              use (callHandler F fn) (map (middlewareCode F) (middlewareChain (routers w r)))
                stub args w)"
  using assms
  by (simp add: Invoke_not_found Invoke_found StatusBadRequest_def invalidInvokeFunction_def)

theorem Invoke_unregistered_function_witness:
  "GetFunctionAndParameters \<lparr>GetFunctionAndParameters = (''nothing'', [])\<rparr> = (''nothing'', [])
   \<and> handlerMapIndex (invokeMap (routers TestInvoke_setup 0)) ''nothing'' TestInvoke_setup = None
   \<and> Invoke TestInvoke_funcs 0 \<lparr>GetFunctionAndParameters = (''nothing'', [])\<rparr> TestInvoke_setup =
     (Inr (Error 400 (''invalid invoke function '' @ [CHR 0x22] @ ''nothing'' @ [CHR 0x22])),
      TestInvoke_setup\<lparr>log := log TestInvoke_setup
          @ [''invalid invoke function '' @ [CHR 0x22] @ ''nothing'' @ [CHR 0x22]]\<rparr>)"
proof -
  have none: "handlerMapIndex (invokeMap (routers TestInvoke_setup 0)) ''nothing'' TestInvoke_setup
                = None"
    by (simp add: TestInvoke_setup_lookup)
  show ?thesis
    using none
      Invoke_unregistered_function [of "\<lparr>GetFunctionAndParameters = (''nothing'', [])\<rparr>"
        "''nothing''" "[]" TestInvoke_setup 0 TestInvoke_funcs]
    by simp
qed

lemma mwIntAppender_Context:
  "Context a = Context b \<Longrightarrow> mwIntAppender a key val = mwIntAppender b key val"
  by (simp add: mwIntAppender_def fun_eq_iff split: option.splits Value.splits)

lemma hIntAppender_Context:
  "Context a = Context b \<Longrightarrow> hIntAppender a key val = hIntAppender b key val"
  by (simp add: hIntAppender_def fun_eq_iff split: option.splits Value.splits)

lemma mapIndex_allocated:
  "mapIndex m k w = Some v \<Longrightarrow> \<exists>a. m = Some a \<and> a < length (mapStore w)"
  by (simp add: mapIndex_def split: option.splits if_splits)

lemma mapIndex_after_assign:
  "a < length (mapStore w) \<Longrightarrow>
   mapIndex (Some a) k (w\<lparr>mapStore := (mapStore w)[a := (mapStore w ! a)(k \<mapsto> v)]\<rparr>) = Some v"
  by (simp add: mapIndex_def)

lemma mwIntAppender_appends:
  "Context router = Some a \<Longrightarrow> mapIndex (Some a) key w = Some (IntSlice arr) \<Longrightarrow>
   mwIntAppender router key val stub args nxt w =
     nxt stub args
       (w\<lparr>mapStore := (mapStore w)[a := (mapStore w ! a)(key \<mapsto> IntSlice (arr @ [val]))]\<rparr>)"
  using mapIndex_allocated [of "Some a" key w "IntSlice arr"]
  by (simp add: mwIntAppender_def mapAssign_def Let_def)

lemma hIntAppender_appends:
  "Context router = Some a \<Longrightarrow> mapIndex (Some a) key w = Some (IntSlice arr) \<Longrightarrow>
   hIntAppender router key val stub args w =
     (Inr (Success 200 []),
      w\<lparr>mapStore := (mapStore w)[a := (mapStore w ! a)(key \<mapsto> IntSlice (arr @ [val]))]\<rparr>)"
  using mapIndex_allocated [of "Some a" key w "IntSlice arr"]
  by (simp add: hIntAppender_def mapAssign_def Let_def)

text \<open>Four appenders in a row leave the four values in the slot, in the order of the calls.\<close>

lemma appenders_in_order:
  fixes w :: "('v, 't) World"
  assumes "mapIndex (Context c) key w = Some (IntSlice arr)"
  shows "\<exists>w'. mwIntAppender c key v1 stub args
           (\<lambda>stub args. mwIntAppender c key v2 stub args
              (\<lambda>stub args. mwIntAppender c key v3 stub args (hIntAppender c key v4))) w
           = (Inr (Success 200 []), w')
         \<and> mapIndex (Context c) key w' = Some (IntSlice (arr @ [v1, v2, v3, v4]))"
proof -
  obtain a where ctx: "Context c = Some a" and len: "a < length (mapStore w)"
    using mapIndex_allocated [OF assms] by blast
  define put where "put = (\<lambda>xs (w :: ('v, 't) World).
     w\<lparr>mapStore := (mapStore w)[a := (mapStore w ! a)(key \<mapsto> IntSlice xs)]\<rparr>)"
  have len_put: "a < length (mapStore (put xs w0))" if "a < length (mapStore w0)"
    for xs w0 using that by (simp add: put_def)
  have idx_put: "mapIndex (Some a) key (put xs w0) = Some (IntSlice xs)"
    if "a < length (mapStore w0)" for xs w0
    using that by (simp add: put_def mapIndex_after_assign)
  have mw: "mwIntAppender c key v stub args nxt w0 = nxt stub args (put (xs @ [v]) w0)"
    if "mapIndex (Some a) key w0 = Some (IntSlice xs)" for v nxt w0 xs
    using that ctx by (simp add: put_def mwIntAppender_appends)
  have hd: "hIntAppender c key v stub args w0 = (Inr (Success 200 []), put (xs @ [v]) w0)"
    if "mapIndex (Some a) key w0 = Some (IntSlice xs)" for v w0 xs
    using that ctx by (simp add: put_def hIntAppender_appends)
  let ?w1 = "put (arr @ [v1]) w"
  let ?w2 = "put (arr @ [v1, v2]) ?w1"
  let ?w3 = "put (arr @ [v1, v2, v3]) ?w2"
  let ?w4 = "put (arr @ [v1, v2, v3, v4]) ?w3"
  have i0: "mapIndex (Some a) key w = Some (IntSlice arr)"
    using assms ctx by simp
  have i1: "mapIndex (Some a) key ?w1 = Some (IntSlice (arr @ [v1]))"
    using len by (rule idx_put)
  have l1: "a < length (mapStore ?w1)" using len by (rule len_put)
  have i2: "mapIndex (Some a) key ?w2 = Some (IntSlice (arr @ [v1, v2]))"
    using l1 by (rule idx_put)
  have l2: "a < length (mapStore ?w2)" using l1 by (rule len_put)
  have i3: "mapIndex (Some a) key ?w3 = Some (IntSlice (arr @ [v1, v2, v3]))"
    using l2 by (rule idx_put)
  have l3: "a < length (mapStore ?w3)" using l2 by (rule len_put)
  have i4: "mapIndex (Some a) key ?w4 = Some (IntSlice (arr @ [v1, v2, v3, v4]))"
    using l3 by (rule idx_put)
  have "mwIntAppender c key v1 stub args
           (\<lambda>stub args. mwIntAppender c key v2 stub args
              (\<lambda>stub args. mwIntAppender c key v3 stub args (hIntAppender c key v4))) w
        = (Inr (Success 200 []), ?w4)"
    using mw [OF i0, of v1] mw [OF i1, of v2] mw [OF i2, of v3] hd [OF i3, of v4]
    by simp
  with i4 ctx show ?thesis by auto
qed

text \<open>
  C1: when the registry maps the name to the value of \<open>use h [m1, m2]\<close> and the global
  list is \<open>[g1]\<close>, dispatching the name runs \<open>g1\<close> with, as its "next", \<open>m1\<close> wrapped
  around \<open>m2\<close> wrapped around \<open>h\<close>: the global middleware is outermost. When the three
  middleware delegate, their work is done in the order g1, m1, m2 and the handler runs
  last; with the appenders of the tests the context slot ends with the four marker
  values in the order g1, m1, m2, handler.
\<close>

theorem Invoke_global_before_specific:
  assumes "GetFunctionAndParameters stub = (name, args)"
      and "handlerMapIndex (invokeMap (routers w r)) name w = Some (useValue h [m1, m2])"
      and "middlewareChain (routers w r) = [g1]"
  shows "Invoke F r stub w =
           middlewareCode F g1 stub args
             (\<lambda>stub args. middlewareCode F m1 stub args
                (\<lambda>stub args. middlewareCode F m2 stub args (callHandler F h))) w
       \<and> (middlewareCode F g1 = thenNext f1 \<and> middlewareCode F m1 = thenNext f2
          \<and> middlewareCode F m2 = thenNext f3 \<longrightarrow>
            Invoke F r stub w =
              callHandler F h stub args (f3 stub args (f2 stub args (f1 stub args w))))
       \<and> (middlewareCode F g1 = mwIntAppender c key v1
          \<and> middlewareCode F m1 = mwIntAppender c key v2
          \<and> middlewareCode F m2 = mwIntAppender c key v3
          \<and> callHandler F h = hIntAppender c key v4
          \<and> mapIndex (Context c) key w = Some (IntSlice arr) \<longrightarrow>
            fst (Invoke F r stub w) = Inr (Success 200 [])
            \<and> mapIndex (Context c) key (snd (Invoke F r stub w))
                = Some (IntSlice (arr @ [v1, v2, v3, v4])))"
proof -
  have structural: "Invoke F r stub w =
           middlewareCode F g1 stub args
             (\<lambda>stub args. middlewareCode F m1 stub args
                (\<lambda>stub args. middlewareCode F m2 stub args (callHandler F h))) w"
    using Invoke_found [OF assms(1) assms(2), of F] assms(3)
    by (simp add: callHandler_useValue use_Cons use_Nil)
  have delegating: "Invoke F r stub w =
              callHandler F h stub args (f3 stub args (f2 stub args (f1 stub args w)))"
    if "middlewareCode F g1 = thenNext f1 \<and> middlewareCode F m1 = thenNext f2
          \<and> middlewareCode F m2 = thenNext f3"
    using structural that by (simp add: thenNext_def)
  have markers: "fst (Invoke F r stub w) = Inr (Success 200 [])
            \<and> mapIndex (Context c) key (snd (Invoke F r stub w))
                = Some (IntSlice (arr @ [v1, v2, v3, v4]))"
    if "middlewareCode F g1 = mwIntAppender c key v1
          \<and> middlewareCode F m1 = mwIntAppender c key v2
          \<and> middlewareCode F m2 = mwIntAppender c key v3
          \<and> callHandler F h = hIntAppender c key v4
          \<and> mapIndex (Context c) key w = Some (IntSlice arr)"
  proof -
    from that have idx: "mapIndex (Context c) key w = Some (IntSlice arr)" by simp
    obtain w' where
      "mwIntAppender c key v1 stub args
           (\<lambda>stub args. mwIntAppender c key v2 stub args
              (\<lambda>stub args. mwIntAppender c key v3 stub args (hIntAppender c key v4))) w
           = (Inr (Success 200 []), w')"
      and "mapIndex (Context c) key w' = Some (IntSlice (arr @ [v1, v2, v3, v4]))"
      using appenders_in_order [OF idx, of v1 stub args v2 v3 v4] by blast
    with structural that show ?thesis by simp
  qed
  show ?thesis
    using structural delegating markers by blast
qed

theorem Invoke_global_before_specific_witness:
  "GetFunctionAndParameters \<lparr>GetFunctionAndParameters = (''endpoint'', [])\<rparr> = (''endpoint'', [])
   \<and> handlerMapIndex (invokeMap (routers TestInvoke_setup 0)) ''endpoint'' TestInvoke_setup
       = Some (useValue (HandlerFunc 4) [2, 3])
   \<and> middlewareChain (routers TestInvoke_setup 0) = [1]
   \<and> mapIndex (Context TestInvoke_router) ''test'' TestInvoke_setup = Some (IntSlice [])
   \<and> fst (Invoke TestInvoke_funcs 0 \<lparr>GetFunctionAndParameters = (''endpoint'', [])\<rparr>
        TestInvoke_setup) = Inr (Success 200 [])
   \<and> mapIndex (Context TestInvoke_router) ''test''
        (snd (Invoke TestInvoke_funcs 0 \<lparr>GetFunctionAndParameters = (''endpoint'', [])\<rparr>
           TestInvoke_setup))
       = Some (IntSlice [1, 2, 3, 4])
   \<and> (let F = \<lparr>handlerCode =
                   (\<lambda>f stub args w. (Inr (Success 200 []), w\<lparr>log := log w @ [''handler'']\<rparr>)),
                 middlewareCode =
                   (\<lambda>m. thenNext (\<lambda>stub args w.
                      w\<lparr>log := log w @ [if m = 0 then ''g1'' else if m = 1 then ''m1'' else ''m2'']\<rparr>))\<rparr>;
            w = emptyWorld
                  \<lparr>handlerMaps := [fmupd ''endpoint'' (useValue (HandlerFunc 0) [1, 2]) fmempty],
                    routers := (routers emptyWorld)
                      (0 := \<lparr>Context = None, invokeMap = Some 0, middlewareChain = [0]\<rparr>)\<rparr>
       in Invoke F 0 \<lparr>GetFunctionAndParameters = (''endpoint'', [])\<rparr> w
            = (Inr (Success 200 []), w\<lparr>log := [''g1'', ''m1'', ''m2'', ''handler'']\<rparr>))"
proof -
  have get: "GetFunctionAndParameters \<lparr>GetFunctionAndParameters = (''endpoint'', [])\<rparr>
                = (''endpoint'', [])"
    by simp
  have reg: "handlerMapIndex (invokeMap (routers TestInvoke_setup 0)) ''endpoint'' TestInvoke_setup
       = Some (useValue (HandlerFunc 4) [2, 3])"
    by (simp add: TestInvoke_setup_lookup)
  have idx: "mapIndex (Context TestInvoke_router) ''test'' TestInvoke_setup = Some (IntSlice [])"
    by (simp add: TestInvoke_setup_eq TestInvoke_router_eq mapIndex_def)
  note markers =
      Invoke_global_before_specific
        [where F = TestInvoke_funcs and c = TestInvoke_router and key = "''test''"
          and ?v1.0 = 1 and ?v2.0 = 2 and ?v3.0 = 3 and ?v4.0 = 4 and arr = "[]",
          OF get reg TestInvoke_setup_middlewareChain, THEN conjunct2, THEN conjunct2]
  have first: "fst (Invoke TestInvoke_funcs 0 \<lparr>GetFunctionAndParameters = (''endpoint'', [])\<rparr>
        TestInvoke_setup) = Inr (Success 200 [])
     \<and> mapIndex (Context TestInvoke_router) ''test''
        (snd (Invoke TestInvoke_funcs 0 \<lparr>GetFunctionAndParameters = (''endpoint'', [])\<rparr>
           TestInvoke_setup))
       = Some (IntSlice [1, 2, 3, 4])"
    using markers idx by (simp add: TestInvoke_funcs_def)
  let ?F = "\<lparr>handlerCode =
                   (\<lambda>(f :: nat) (stub :: ChaincodeStub) (args :: string list)
                      (w :: (string, nat) World).
                        (Inr (Success 200 []) :: panic + Response,
                         w\<lparr>log := log w @ [''handler'']\<rparr>)),
                 middlewareCode =
                   (\<lambda>m. thenNext (\<lambda>stub args w.
                      w\<lparr>log := log w @ [if m = 0 then ''g1'' else if m = 1 then ''m1'' else ''m2'']\<rparr>))\<rparr>"
  let ?w = "emptyWorld
                  \<lparr>handlerMaps := [fmupd ''endpoint'' (useValue (HandlerFunc 0) [1, 2]) fmempty],
                    routers := (routers emptyWorld)
                      (0 := \<lparr>Context = None, invokeMap = Some 0, middlewareChain = [0]\<rparr>)\<rparr>"
  have reg': "handlerMapIndex (invokeMap (routers ?w 0)) ''endpoint'' ?w
                = Some (useValue (HandlerFunc 0) [1, 2])"
    by (simp add: handlerMapIndex_def)
  have chain': "middlewareChain (routers ?w 0) = [0]"
    by simp
  note delegating =
    Invoke_global_before_specific [where F = ?F
        and ?f1.0 = "\<lambda>stub args w. w\<lparr>log := log w @ [''g1'']\<rparr>"
        and ?f2.0 = "\<lambda>stub args w. w\<lparr>log := log w @ [''m1'']\<rparr>"
        and ?f3.0 = "\<lambda>stub args w. w\<lparr>log := log w @ [''m2'']\<rparr>",
        OF get reg' chain', THEN conjunct2, THEN conjunct1]
  have second: "Invoke ?F 0 \<lparr>GetFunctionAndParameters = (''endpoint'', [])\<rparr> ?w
            = (Inr (Success 200 []), ?w\<lparr>log := [''g1'', ''m1'', ''m2'', ''handler'']\<rparr>)"
    using delegating by (simp add: emptyWorld_def)
  show ?thesis
    unfolding Let_def
    using get reg TestInvoke_setup_middlewareChain idx first second by blast
qed

text \<open>
  Against C8 as it is stated: on a zero-valued Router the registry is the nil map and the
  assignment panics.
\<close>

theorem RegisterHandler_nil_registry_counterexample:
  "routers emptyWorld 0 = zeroRouter
   \<and> RegisterHandler 0 ''endpoint'' (HandlerFunc 4) [2, 3] emptyWorld
       = (Inl NilMapAssignment, emptyWorld)"
  by (simp add: RegisterHandler_nil handlerMapExists_def emptyWorld_def zeroRouter_def)

text \<open>
  C8, amended: on a Router whose registry exists (as for every Router that \<open>NewRouter\<close>
  made), \<open>RegisterHandler\<close> stores the value of \<open>use h mws\<close>, whose behaviour is the
  composition of the handler with its middleware in listed order, under the name,
  replacing what the name held and leaving the other names and the Router variables as
  they were; it returns the value it stored and does not fail; the registry grows by one
  exactly when the name is new. On a Router whose registry is nil (a zero-valued Router)
  the assignment panics and nothing is stored.
\<close>

theorem RegisterHandler_stores_composition:
  "(invokeMap (routers w r) = Some a \<and> a < length (handlerMaps w) \<longrightarrow>
      RegisterHandler r functionName h mws w
        = (Inr (useValue h mws),
           w\<lparr>handlerMaps := (handlerMaps w)
                [a := fmupd functionName (useValue h mws) (handlerMaps w ! a)]\<rparr>)
      \<and> callHandler F (useValue h mws)
          = composition (callHandler F h) (map (middlewareCode F) mws)
      \<and> handlerMapIndex (invokeMap (routers w r)) functionName
           (snd (RegisterHandler r functionName h mws w)) = Some (useValue h mws)
      \<and> (\<forall>other. other \<noteq> functionName \<longrightarrow>
            handlerMapIndex (invokeMap (routers w r)) other
              (snd (RegisterHandler r functionName h mws w))
            = handlerMapIndex (invokeMap (routers w r)) other w)
      \<and> fcard (fmdom (handlerMaps (snd (RegisterHandler r functionName h mws w)) ! a))
          = (if functionName |\<in>| fmdom (handlerMaps w ! a)
             then fcard (fmdom (handlerMaps w ! a))
             else fcard (fmdom (handlerMaps w ! a)) + 1)
      \<and> routers (snd (RegisterHandler r functionName h mws w)) = routers w)
   \<and> (\<not> handlerMapExists (invokeMap (routers w r)) w \<longrightarrow>
      RegisterHandler r functionName h mws w = (Inl NilMapAssignment, w))"
proof (intro conjI impI)
  assume "\<not> handlerMapExists (invokeMap (routers w r)) w"
  then show "RegisterHandler r functionName h mws w = (Inl NilMapAssignment, w)"
    by (rule RegisterHandler_nil)
next
  assume a: "invokeMap (routers w r) = Some a \<and> a < length (handlerMaps w)"
  then have eq: "RegisterHandler r functionName h mws w
        = (Inr (useValue h mws),
           w\<lparr>handlerMaps := (handlerMaps w)
                [a := fmupd functionName (useValue h mws) (handlerMaps w ! a)]\<rparr>)"
    by (simp add: RegisterHandler_exists)
  show "RegisterHandler r functionName h mws w
        = (Inr (useValue h mws),
           w\<lparr>handlerMaps := (handlerMaps w)
                [a := fmupd functionName (useValue h mws) (handlerMaps w ! a)]\<rparr>)"
    by (rule eq)
  show "callHandler F (useValue h mws)
          = composition (callHandler F h) (map (middlewareCode F) mws)"
    by (simp add: callHandler_useValue use_composition)
  show "handlerMapIndex (invokeMap (routers w r)) functionName
           (snd (RegisterHandler r functionName h mws w)) = Some (useValue h mws)"
    using a by (simp add: eq handlerMapIndex_def)
  show "\<forall>other. other \<noteq> functionName \<longrightarrow>
            handlerMapIndex (invokeMap (routers w r)) other
              (snd (RegisterHandler r functionName h mws w))
            = handlerMapIndex (invokeMap (routers w r)) other w"
    using a by (simp add: eq handlerMapIndex_def)
  show "fcard (fmdom (handlerMaps (snd (RegisterHandler r functionName h mws w)) ! a))
          = (if functionName |\<in>| fmdom (handlerMaps w ! a)
             then fcard (fmdom (handlerMaps w ! a))
             else fcard (fmdom (handlerMaps w ! a)) + 1)"
    using a by (simp add: eq fcard_finsert_if)
  show "routers (snd (RegisterHandler r functionName h mws w)) = routers w"
    by (simp add: eq)
qed

theorem RegisterHandler_stores_composition_witness:
  "invokeMap (routers TestInvoke_setup 0) = Some 0 \<and> 0 < length (handlerMaps TestInvoke_setup)
   \<and> fcard (fmdom (handlerMaps TestInvoke_setup ! 0)) = 1
   \<and> fst (RegisterHandler 0 ''endpoint'' (HandlerFunc 4) [] TestInvoke_setup)
       = Inr (HandlerFunc 4)
   \<and> fcard (fmdom (handlerMaps
        (snd (RegisterHandler 0 ''endpoint'' (HandlerFunc 4) [] TestInvoke_setup)) ! 0)) = 1
   \<and> fcard (fmdom (handlerMaps
        (snd (RegisterHandler 0 ''other'' (HandlerFunc 4) [2] TestInvoke_setup)) ! 0)) = 2
   \<and> \<not> handlerMapExists (invokeMap (routers emptyWorld 0)) emptyWorld
   \<and> RegisterHandler 0 ''endpoint'' (HandlerFunc 4) [2, 3] emptyWorld
       = (Inl NilMapAssignment, emptyWorld)"
proof -
  have reg: "invokeMap (routers TestInvoke_setup 0) = Some 0 \<and> 0 < length (handlerMaps TestInvoke_setup)"
    by (simp add: TestInvoke_setup_eq)
  have one: "fcard (fmdom (handlerMaps TestInvoke_setup ! 0)) = 1"
    by (simp add: TestInvoke_setup_eq fcard_finsert_if)
  have dom: "fmdom (handlerMaps TestInvoke_setup ! 0) = {|''endpoint''|}"
    by (simp add: TestInvoke_setup_eq)
  have nil: "\<not> handlerMapExists (invokeMap (routers emptyWorld 0)) emptyWorld"
    by (simp add: handlerMapExists_def emptyWorld_def zeroRouter_def)
  show ?thesis
    using reg one dom nil
      RegisterHandler_stores_composition [where w = TestInvoke_setup and r = 0 and a = 0
        and functionName = "''endpoint''" and h = "HandlerFunc 4" and mws = "[]"
        and F = TestInvoke_funcs]
      RegisterHandler_stores_composition [where w = TestInvoke_setup and r = 0 and a = 0
        and functionName = "''other''" and h = "HandlerFunc 4" and mws = "[2]"
        and F = TestInvoke_funcs]
      RegisterHandler_stores_composition [where w = emptyWorld and r = 0
        and functionName = "''endpoint''" and h = "HandlerFunc 4" and mws = "[2, 3]"
        and F = TestInvoke_funcs]
    by (simp add: useValue_Nil fcard_finsert_if)
qed

lemma leavesRouters_use:
  "leavesRouters h \<Longrightarrow> list_all middlewareLeavesRouters ms \<Longrightarrow> leavesRouters (use h ms)"
proof (induction ms)
  case Nil
  then show ?case by (simp add: use_Nil)
next
  case (Cons m ms)
  then have "leavesRouters (use h ms)" and "middlewareLeavesRouters m"
    by simp_all
  then have "leavesRouters (\<lambda>stub args. m stub args (use h ms))"
    by (simp add: middlewareLeavesRouters_def)
  then show ?case by (simp add: use_Cons)
qed

lemma ArgCounter_leavesRouters: "middlewareLeavesRouters (ArgCounter expected)"
  by (simp add: middlewareLeavesRouters_def leavesRouters_def ArgCounter_def Let_def)

lemma mapAssign_routers:
  "mapAssign m k v w = Inr w' \<Longrightarrow> routers w' = routers w \<and> handlerMaps w' = handlerMaps w"
  by (auto simp add: mapAssign_def split: option.splits if_splits)

lemma JSONParser_leavesRouters:
  "middlewareLeavesRouters
     (JSONParser reflect_New json_Unmarshal router argIndex contextKey valueType)"
  unfolding middlewareLeavesRouters_def leavesRouters_def
  by (auto simp add: JSONParser_def Let_def dest!: mapAssign_routers
      split: sum.splits prod.splits option.splits)

lemma TimestampParser_leavesRouters:
  "middlewareLeavesRouters (TimestampParser time_Parse router argIndex timeFormat contextKey)"
  unfolding middlewareLeavesRouters_def leavesRouters_def
  by (auto simp add: TimestampParser_def Let_def dest!: mapAssign_routers
      split: sum.splits prod.splits option.splits)

lemma mwIntAppender_leavesRouters: "middlewareLeavesRouters (mwIntAppender c key val)"
  unfolding middlewareLeavesRouters_def leavesRouters_def
  by (auto simp add: mwIntAppender_def Let_def dest!: mapAssign_routers
      split: sum.splits option.splits Value.splits)

lemma hIntAppender_leavesRouters: "leavesRouters (hIntAppender c key val)"
  unfolding leavesRouters_def
  by (auto simp add: hIntAppender_def Let_def dest!: mapAssign_routers
      split: sum.splits option.splits Value.splits)

lemma registeringWorld_eq:
  "registeringWorld =
     \<lparr>mapStore = [Map.empty], heap = [], log = [],
      handlerMaps = [fmupd ''endpoint'' (HandlerFunc 0) fmempty],
      routers = (\<lambda>r. zeroRouter)
        (0 := \<lparr>Context = Some 0, invokeMap = Some 0, middlewareChain = []\<rparr>)\<rparr>"
  by (simp add: registeringWorld_def NewRouter_def emptyWorld_def Let_def
      RegisterHandler_def handlerMapAssign_def handlerMapIndex_def useValue_Nil)

text \<open>
  Against C10 as it is stated: a handler that holds the pointer to the Router registers
  a handler and adds a global middleware while its call is dispatched; after the call the
  registry has the key \<open>late\<close> and the global list has one element.
\<close>

theorem Invoke_registering_handler_counterexample:
  "handlerMapIndex (invokeMap (routers registeringWorld 0)) ''late'' registeringWorld = None
   \<and> middlewareChain (routers registeringWorld 0) = []
   \<and> fst (Invoke registeringFuncs 0 \<lparr>GetFunctionAndParameters = (''endpoint'', [])\<rparr>
        registeringWorld) = Inr (Success 200 [])
   \<and> handlerMapIndex
        (invokeMap (routers (snd (Invoke registeringFuncs 0
           \<lparr>GetFunctionAndParameters = (''endpoint'', [])\<rparr> registeringWorld)) 0))
        ''late''
        (snd (Invoke registeringFuncs 0
           \<lparr>GetFunctionAndParameters = (''endpoint'', [])\<rparr> registeringWorld))
       = Some (HandlerFunc 1)
   \<and> middlewareChain (routers (snd (Invoke registeringFuncs 0
           \<lparr>GetFunctionAndParameters = (''endpoint'', [])\<rparr> registeringWorld)) 0) = [7]"
proof -
  have run: "Invoke registeringFuncs 0 \<lparr>GetFunctionAndParameters = (''endpoint'', [])\<rparr>
        registeringWorld
      = (Inr (Success 200 []),
         \<lparr>mapStore = [Map.empty], heap = [], log = [],
          handlerMaps = [fmupd ''late'' (HandlerFunc 1) (fmupd ''endpoint'' (HandlerFunc 0) fmempty)],
          routers = (\<lambda>r. zeroRouter)
            (0 := \<lparr>Context = Some 0, invokeMap = Some 0, middlewareChain = [7]\<rparr>)\<rparr>)"
    by (simp add: Invoke_def registeringWorld_eq handlerMapIndex_def useValue_Nil
        registeringFuncs_def registeringHandler_def RegisterHandler_def handlerMapAssign_def
        Use_def)
  show ?thesis
    by (simp add: run) (simp add: registeringWorld_eq handlerMapIndex_def)
qed

text \<open>
  C10, amended: \<open>Invoke\<close> itself writes neither the registry nor the global middleware
  list. For an unregistered name the Router variables, the registries, the context maps
  and the heap are after the call what they were before. For a registered name the world
  after the call is the one that the handler found, composed with the global chain,
  leaves: the Router variables and the registries are unchanged when that handler and
  the middleware of the chain leave them alone, as \<open>ArgCounter\<close>, \<open>JSONParser\<close>,
  \<open>TimestampParser\<close> and the appenders of the tests do, which write context maps, heap
  and log only.
\<close>

theorem Invoke_writes_no_router:
  assumes "GetFunctionAndParameters stub = (name, args)"
  shows "(handlerMapIndex (invokeMap (routers w r)) name w = None \<longrightarrow>
            routers (snd (Invoke F r stub w)) = routers w
            \<and> handlerMaps (snd (Invoke F r stub w)) = handlerMaps w
            \<and> mapStore (snd (Invoke F r stub w)) = mapStore w
            \<and> heap (snd (Invoke F r stub w)) = heap w)
       \<and> (\<forall>fn. handlerMapIndex (invokeMap (routers w r)) name w = Some fn \<longrightarrow>
            snd (Invoke F r stub w) =
              snd (use (callHandler F fn) (map (middlewareCode F) (middlewareChain (routers w r)))
                     stub args w))
       \<and> (\<forall>fn. handlerMapIndex (invokeMap (routers w r)) name w = Some fn
              \<and> leavesRouters (callHandler F fn)
              \<and> list_all middlewareLeavesRouters
                   (map (middlewareCode F) (middlewareChain (routers w r))) \<longrightarrow>
            routers (snd (Invoke F r stub w)) = routers w
            \<and> handlerMaps (snd (Invoke F r stub w)) = handlerMaps w)
       \<and> (leavesRouters (callHandler F h)
            \<and> list_all middlewareLeavesRouters (map (middlewareCode F) mws) \<longrightarrow>
            leavesRouters (callHandler F (useValue h mws)))
       \<and> middlewareLeavesRouters (ArgCounter expected :: ('v, 't) Middleware)
       \<and> middlewareLeavesRouters
            (JSONParser reflect_New json_Unmarshal router argIndex contextKey valueType
               :: ('v, 't) Middleware)
       \<and> middlewareLeavesRouters
            (TimestampParser time_Parse router argIndex timeFormat contextKey
               :: ('v, 't) Middleware)
       \<and> middlewareLeavesRouters (mwIntAppender c key val :: ('v, 't) Middleware)
       \<and> leavesRouters (hIntAppender c key val :: ('v, 't) Handler)"
proof -
  have not_found: "routers (snd (Invoke F r stub w)) = routers w
            \<and> handlerMaps (snd (Invoke F r stub w)) = handlerMaps w
            \<and> mapStore (snd (Invoke F r stub w)) = mapStore w
            \<and> heap (snd (Invoke F r stub w)) = heap w"
    if "handlerMapIndex (invokeMap (routers w r)) name w = None"
    using Invoke_not_found [OF assms that, of F] by simp
  have found: "snd (Invoke F r stub w) =
              snd (use (callHandler F fn) (map (middlewareCode F) (middlewareChain (routers w r)))
                     stub args w)"
    if "handlerMapIndex (invokeMap (routers w r)) name w = Some fn" for fn
    using Invoke_found [OF assms that, of F] by simp
  have frame: "routers (snd (Invoke F r stub w)) = routers w
            \<and> handlerMaps (snd (Invoke F r stub w)) = handlerMaps w"
    if "handlerMapIndex (invokeMap (routers w r)) name w = Some fn
              \<and> leavesRouters (callHandler F fn)
              \<and> list_all middlewareLeavesRouters
                   (map (middlewareCode F) (middlewareChain (routers w r)))" for fn
  proof -
    from that have "leavesRouters
        (use (callHandler F fn) (map (middlewareCode F) (middlewareChain (routers w r))))"
      by (simp add: leavesRouters_use)
    with that found [of fn] show ?thesis
      by (simp add: leavesRouters_def)
  qed
  have closure: "leavesRouters (callHandler F (useValue h mws))"
    if "leavesRouters (callHandler F h)
            \<and> list_all middlewareLeavesRouters (map (middlewareCode F) mws)"
    using that by (simp add: callHandler_useValue leavesRouters_use)
  show ?thesis
    using not_found found frame closure
      ArgCounter_leavesRouters [of expected]
      JSONParser_leavesRouters [of reflect_New json_Unmarshal router argIndex contextKey valueType]
      TimestampParser_leavesRouters [of time_Parse router argIndex timeFormat contextKey]
      mwIntAppender_leavesRouters [of c key val] hIntAppender_leavesRouters [of c key val]
    by blast
qed

theorem Invoke_writes_no_router_witness:
  "GetFunctionAndParameters \<lparr>GetFunctionAndParameters = (''endpoint'', [])\<rparr> = (''endpoint'', [])
   \<and> handlerMapIndex (invokeMap (routers TestInvoke_setup 0)) ''endpoint'' TestInvoke_setup
       = Some (useValue (HandlerFunc 4) [2, 3])
   \<and> leavesRouters (callHandler TestInvoke_funcs (useValue (HandlerFunc 4) [2, 3]))
   \<and> list_all middlewareLeavesRouters
        (map (middlewareCode TestInvoke_funcs) (middlewareChain (routers TestInvoke_setup 0)))
   \<and> routers (snd (Invoke TestInvoke_funcs 0
        \<lparr>GetFunctionAndParameters = (''endpoint'', [])\<rparr> TestInvoke_setup))
       = routers TestInvoke_setup
   \<and> handlerMaps (snd (Invoke TestInvoke_funcs 0
        \<lparr>GetFunctionAndParameters = (''endpoint'', [])\<rparr> TestInvoke_setup))
       = handlerMaps TestInvoke_setup
   \<and> handlerMapIndex (invokeMap (routers TestInvoke_setup 0)) ''nothing'' TestInvoke_setup = None
   \<and> routers (snd (Invoke TestInvoke_funcs 0
        \<lparr>GetFunctionAndParameters = (''nothing'', [])\<rparr> TestInvoke_setup))
       = routers TestInvoke_setup
   \<and> handlerMaps (snd (Invoke TestInvoke_funcs 0
        \<lparr>GetFunctionAndParameters = (''nothing'', [])\<rparr> TestInvoke_setup))
       = handlerMaps TestInvoke_setup"
proof -
  have get: "GetFunctionAndParameters \<lparr>GetFunctionAndParameters = (''endpoint'', [])\<rparr>
                = (''endpoint'', [])"
    by simp
  have get': "GetFunctionAndParameters \<lparr>GetFunctionAndParameters = (''nothing'', [])\<rparr>
                = (''nothing'', [])"
    by simp
  have reg: "handlerMapIndex (invokeMap (routers TestInvoke_setup 0)) ''endpoint'' TestInvoke_setup
       = Some (useValue (HandlerFunc 4) [2, 3])"
    by (simp add: TestInvoke_setup_lookup)
  have none: "handlerMapIndex (invokeMap (routers TestInvoke_setup 0)) ''nothing'' TestInvoke_setup
       = None"
    by (simp add: TestInvoke_setup_lookup)
  have mws: "list_all middlewareLeavesRouters (map (middlewareCode TestInvoke_funcs) ms)" for ms
    by (induction ms) (simp_all add: TestInvoke_funcs_def mwIntAppender_leavesRouters)
  have h: "leavesRouters (callHandler TestInvoke_funcs (HandlerFunc 4))"
    by (simp add: TestInvoke_funcs_def hIntAppender_leavesRouters)
  note inst = Invoke_writes_no_router [where F = TestInvoke_funcs and w = TestInvoke_setup
      and r = 0 and h = "HandlerFunc 4" and mws = "[2, 3]", OF get]
  note inst' = Invoke_writes_no_router [where F = TestInvoke_funcs and w = TestInvoke_setup
      and r = 0, OF get']
  have closure: "leavesRouters (callHandler TestInvoke_funcs (useValue (HandlerFunc 4) [2, 3]))"
    using inst [THEN conjunct2, THEN conjunct2, THEN conjunct2, THEN conjunct1]
      h mws [of "[2, 3]"] by blast
  have frame: "routers (snd (Invoke TestInvoke_funcs 0
        \<lparr>GetFunctionAndParameters = (''endpoint'', [])\<rparr> TestInvoke_setup))
       = routers TestInvoke_setup
     \<and> handlerMaps (snd (Invoke TestInvoke_funcs 0
        \<lparr>GetFunctionAndParameters = (''endpoint'', [])\<rparr> TestInvoke_setup))
       = handlerMaps TestInvoke_setup"
    using inst [THEN conjunct2, THEN conjunct2, THEN conjunct1]
      reg closure mws [of "middlewareChain (routers TestInvoke_setup 0)"] by blast
  have frame': "routers (snd (Invoke TestInvoke_funcs 0
        \<lparr>GetFunctionAndParameters = (''nothing'', [])\<rparr> TestInvoke_setup))
       = routers TestInvoke_setup
     \<and> handlerMaps (snd (Invoke TestInvoke_funcs 0
        \<lparr>GetFunctionAndParameters = (''nothing'', [])\<rparr> TestInvoke_setup))
       = handlerMaps TestInvoke_setup"
    using inst' [THEN conjunct1] none by blast
  show ?thesis
    using get reg closure mws [of "middlewareChain (routers TestInvoke_setup 0)"] frame none frame'
    by blast
qed

section \<open>Properties of the middleware\<close>

lemma writeExpected_commaSeparated:
  "n = i + int (length xs) \<Longrightarrow> writeExpected xs i n res = res @ commaSeparated xs"
proof (induction xs arbitrary: i res)
  case Nil
  then show ?case by simp
next
  case (Cons x xs)
  show ?case
  proof (cases xs)
    case Nil
    with Cons.prems show ?thesis by simp
  next
    case (Cons y ys)
    have "writeExpected (x # xs) i n res = writeExpected xs (i + 1) n (res @ x @ '', '')"
      using Cons.prems Cons by (simp add: Let_def)
    also have "\<dots> = (res @ x @ '', '') @ commaSeparated xs"
      using Cons.prems by (intro Cons.IH) simp
    finally show ?thesis using Cons by simp
  qed
qed

lemma ArgCounter_mismatch:
  "length args \<noteq> length expected \<Longrightarrow>
   ArgCounter expected stub args next w =
     (let err = ''incorrect number of arguments, expected '' @ formatD (int (length expected))
                  @ (if expected = [] then [] else '': '' @ commaSeparated expected)
      in (Inr (Error StatusBadRequest err), w\<lparr>log := log w @ [err]\<rparr>))"
  by (simp add: ArgCounter_def Let_def writeExpected_commaSeparated)

lemma ArgCounter_match:
  "length args = length expected \<Longrightarrow> ArgCounter expected stub args next w = next stub args w"
  by (simp add: ArgCounter_def)

text \<open>
  Against C5 as it is stated: with an empty list of expected names the guard writes
  neither the colon nor any name, so the message is not the one of the template.
\<close>

theorem ArgCounter_empty_expected_counterexample:
  "length [''x''] \<noteq> length ([] :: string list)
   \<and> fst (ArgCounter [] \<lparr>GetFunctionAndParameters = (''endpoint'', [''x''])\<rparr> [''x''] nilHandler emptyWorld)
       \<noteq> Inr (Error 400 (argumentCountMessage []))
   \<and> fst (ArgCounter [] \<lparr>GetFunctionAndParameters = (''endpoint'', [''x''])\<rparr> [''x''] nilHandler emptyWorld)
       = Inr (Error 400 ''incorrect number of arguments, expected 0'')"
  by (simp add: ArgCounter_mismatch Let_def argumentCountMessage_def formatD_def natDecimal.simps
      Error_def StatusBadRequest_def)

text \<open>
  C5, amended: when the lengths differ the guard returns, and logs, a 400 error without
  calling "next": for a non-empty list of expected names the message is the count, a
  colon and the names in order, comma-separated, with no trailing comma; for the empty
  list it is "incorrect number of arguments, expected 0", with no colon and no names.
  When the lengths match it calls "next" with the same stub, arguments and world and
  returns exactly what "next" returns.
\<close>

theorem ArgCounter_result:
  "(length args \<noteq> length expected \<and> expected \<noteq> [] \<longrightarrow>
      ArgCounter expected stub args next w =
        (Inr (Error 400 (argumentCountMessage expected)),
         w\<lparr>log := log w @ [argumentCountMessage expected]\<rparr>))
   \<and> (length args \<noteq> length expected \<and> expected = [] \<longrightarrow>
      ArgCounter expected stub args next w =
        (Inr (Error 400 ''incorrect number of arguments, expected 0''),
         w\<lparr>log := log w @ [''incorrect number of arguments, expected 0'']\<rparr>))
   \<and> (length args = length expected \<longrightarrow>
      ArgCounter expected stub args next w = next stub args w)"
proof (intro conjI impI)
  assume "length args \<noteq> length expected \<and> expected \<noteq> []"
  then show "ArgCounter expected stub args next w =
        (Inr (Error 400 (argumentCountMessage expected)),
         w\<lparr>log := log w @ [argumentCountMessage expected]\<rparr>)"
    by (simp add: ArgCounter_mismatch Let_def argumentCountMessage_def StatusBadRequest_def)
next
  assume a: "length args \<noteq> length expected \<and> expected = []"
  have zero: "formatD (int (length ([] :: string list))) = ''0''"
    by (simp add: formatD_def natDecimal.simps)
  from a have "ArgCounter expected stub args next w =
      (let err = ''incorrect number of arguments, expected '' @ formatD (int (length expected))
                  @ (if expected = [] then [] else '': '' @ commaSeparated expected)
       in (Inr (Error StatusBadRequest err), w\<lparr>log := log w @ [err]\<rparr>))"
    by (intro ArgCounter_mismatch) auto
  with a zero show "ArgCounter expected stub args next w =
        (Inr (Error 400 ''incorrect number of arguments, expected 0''),
         w\<lparr>log := log w @ [''incorrect number of arguments, expected 0'']\<rparr>)"
    by (simp add: Let_def StatusBadRequest_def)
next
  assume "length args = length expected"
  then show "ArgCounter expected stub args next w = next stub args w"
    by (rule ArgCounter_match)
qed

theorem ArgCounter_result_witness:
  "ArgCounter [''a'', ''b''] \<lparr>GetFunctionAndParameters = (''endpoint'', [''x''])\<rparr> [''x''] nilHandler emptyWorld
     = (Inr (Error 400 ''incorrect number of arguments, expected 2: a, b''),
        emptyWorld\<lparr>log := [''incorrect number of arguments, expected 2: a, b'']\<rparr>)
   \<and> ArgCounter [] \<lparr>GetFunctionAndParameters = (''endpoint'', [''x''])\<rparr> [''x''] nilHandler emptyWorld
     = (Inr (Error 400 ''incorrect number of arguments, expected 0''),
        emptyWorld\<lparr>log := [''incorrect number of arguments, expected 0'']\<rparr>)
   \<and> ArgCounter [''a'', ''b''] \<lparr>GetFunctionAndParameters = (''endpoint'', [''x'', ''y''])\<rparr> [''x'', ''y'']
        (hIntAppender (TestInvoke_router) ''test'' 4) (TestInvoke_setup)
     = hIntAppender (TestInvoke_router) ''test'' 4
         \<lparr>GetFunctionAndParameters = (''endpoint'', [''x'', ''y''])\<rparr> [''x'', ''y''] (TestInvoke_setup)"
  using ArgCounter_result [of "[''x'']" "[''a'', ''b'']" "\<lparr>GetFunctionAndParameters = (''endpoint'', [''x''])\<rparr>" nilHandler emptyWorld]
    ArgCounter_result [of "[''x'']" "[]" "\<lparr>GetFunctionAndParameters = (''endpoint'', [''x''])\<rparr>" nilHandler emptyWorld]
    ArgCounter_result [of "[''x'', ''y'']" "[''a'', ''b'']" "\<lparr>GetFunctionAndParameters = (''endpoint'', [''x'', ''y''])\<rparr>"
          "hIntAppender (TestInvoke_router) ''test'' 4" "TestInvoke_setup"]
  by (simp add: argumentCountMessage_def formatD_def natDecimal.simps emptyWorld_def)

section \<open>Short-circuiting\<close>

lemma use_short_circuit:
  "ignoresNext mi stub args w \<Longrightarrow> use h (mi # post) stub args w = mi stub args nxt w"
  by (simp add: use_Cons ignoresNext_def)

lemma use_short_circuit_always:
  assumes "\<forall>stub args w. ignoresNext mi stub args w"
  shows "use h (mi # post) = use h' (mi # post')"
proof -
  have "use h (mi # post) stub args w = use h' (mi # post') stub args w" for stub args w
    using assms use_short_circuit [of mi stub args w] by metis
  then show ?thesis by (intro ext)
qed

lemma ArgCounter_ignoresNext:
  "length args \<noteq> length expected \<Longrightarrow> ignoresNext (ArgCounter expected) stub args w"
  by (simp add: ignoresNext_def ArgCounter_def)

lemma ArgCounter_delegates:
  "length args = length expected \<Longrightarrow>
   delegatesTo [ArgCounter expected] (stub, args, w) (stub, args, w)"
  by (auto simp add: ArgCounter_match)

lemma use_split:
  "use h (pre @ mi # post) = use (\<lambda>stub args. mi stub args (use h post)) pre"
  by (simp add: use_append use_Cons)

lemma use_delegatesTo:
  "delegatesTo pre (stub, args, w) (stub', args', w') \<Longrightarrow>
   use h pre stub args w = h stub' args' w'"
proof (induction pre arbitrary: stub args w)
  case Nil
  then show ?case by (simp add: use_Nil)
next
  case (Cons m ms)
  from Cons.prems obtain stub1 args1 w1 where
    step: "\<forall>next. m stub args next w = next stub1 args1 w1"
    and rest: "delegatesTo ms (stub1, args1, w1) (stub', args', w')"
    by auto
  have "use h (m # ms) stub args w = m stub args (use h ms) w"
    by (simp add: use_Cons)
  also have "\<dots> = use h ms stub1 args1 w1"
    using step by simp
  also have "\<dots> = h stub' args' w'"
    using rest by (rule Cons.IH)
  finally show ?case .
qed

lemma thenNext_delegatesTo:
  "delegatesTo (map thenNext fs) (stub, args, w) (stub, args, fold (\<lambda>f. f stub args) fs w)"
  by (induction fs arbitrary: w) (auto simp add: thenNext_def)

text \<open>
  Against C3 as it is stated: a middleware that calls "next" may still answer with a
  response of its own; placed before a middleware that stops the chain, it decides the
  final response.
\<close>

theorem short_circuit_response_counterexample:
  "ignoresNext (ArgCounter [''a'']) \<lparr>GetFunctionAndParameters = (''endpoint'', [])\<rparr> [] emptyWorld
   \<and> fst (use nilHandler [mwOverride, ArgCounter [''a'']]
            \<lparr>GetFunctionAndParameters = (''endpoint'', [])\<rparr> [] emptyWorld)
       \<noteq> fst (ArgCounter [''a''] \<lparr>GetFunctionAndParameters = (''endpoint'', [])\<rparr> []
                nilHandler emptyWorld)"
proof -
  have "ArgCounter [''a''] \<lparr>GetFunctionAndParameters = (''endpoint'', [])\<rparr> [] nxt emptyWorld
          = (Inr (Error 400 ''incorrect number of arguments, expected 1: a''),
             emptyWorld\<lparr>log := log emptyWorld @ [''incorrect number of arguments, expected 1: a'']\<rparr>)"
    for nxt :: "(string, nat) Handler"
    by (simp add: ArgCounter_mismatch Let_def formatD_def natDecimal.simps StatusBadRequest_def)
  then show ?thesis
    by (simp add: ArgCounter_ignoresNext use_Cons use_Nil mwOverride_def Error_def
        StatusInternalServerError_def)
qed

text \<open>
  C3, amended: a chain is its earlier middleware composed around the middleware \<open>mi\<close>
  called with the rest of the chain as "next". Wherever \<open>mi\<close> is called and returns without
  invoking "next", what comes back from it is its own outcome, whatever the later
  middleware and the handler are: none of them runs. When every middleware before \<open>mi\<close>
  delegates, the outcome of the whole chain is that of \<open>mi\<close>: its response, and the world
  it leaves after the work of the earlier middleware.
\<close>

theorem short_circuit_stops_chain:
  "use h (pre @ mi # post) = use (\<lambda>stub args. mi stub args (use h post)) pre
   \<and> (ignoresNext mi stub' args' w' \<longrightarrow>
        use h (mi # post) stub' args' w' = mi stub' args' nxt w')
   \<and> (delegatesTo pre (stub, args, w) (stub', args', w') \<and> ignoresNext mi stub' args' w' \<longrightarrow>
        use h (pre @ mi # post) stub args w = mi stub' args' nxt w')
   \<and> (ignoresNext mi stub args (fold (\<lambda>f. f stub args) fs w) \<longrightarrow>
        use h (map thenNext fs @ mi # post) stub args w
          = mi stub args nxt (fold (\<lambda>f. f stub args) fs w))
   \<and> ((\<forall>stub args w. ignoresNext mi stub args w) \<longrightarrow>
        use h (pre @ mi # post) = use h' (pre @ mi # post'))"
proof (intro conjI impI)
  show "use h (pre @ mi # post) = use (\<lambda>stub args. mi stub args (use h post)) pre"
    by (rule use_split)
next
  assume "ignoresNext mi stub' args' w'"
  then show "use h (mi # post) stub' args' w' = mi stub' args' nxt w'"
    by (rule use_short_circuit)
next
  assume a: "delegatesTo pre (stub, args, w) (stub', args', w') \<and> ignoresNext mi stub' args' w'"
  then have "use (use h (mi # post)) pre stub args w = use h (mi # post) stub' args' w'"
    by (simp add: use_delegatesTo)
  also have "\<dots> = mi stub' args' nxt w'"
    using a by (simp add: use_short_circuit)
  finally show "use h (pre @ mi # post) stub args w = mi stub' args' nxt w'"
    by (simp add: use_append)
next
  assume a: "ignoresNext mi stub args (fold (\<lambda>f. f stub args) fs w)"
  have "use (use h (mi # post)) (map thenNext fs) stub args w
          = use h (mi # post) stub args (fold (\<lambda>f. f stub args) fs w)"
    by (rule use_thenNext)
  also have "\<dots> = mi stub args nxt (fold (\<lambda>f. f stub args) fs w)"
    using a by (rule use_short_circuit)
  finally show "use h (map thenNext fs @ mi # post) stub args w
          = mi stub args nxt (fold (\<lambda>f. f stub args) fs w)"
    by (simp add: use_append)
next
  assume "\<forall>stub args w. ignoresNext mi stub args w"
  then have "use h (mi # post) = use h' (mi # post')"
    by (rule use_short_circuit_always)
  then show "use h (pre @ mi # post) = use h' (pre @ mi # post')"
    by (simp add: use_append)
qed

theorem short_circuit_stops_chain_witness:
  "delegatesTo [ArgCounter [''a'']]
     (\<lparr>GetFunctionAndParameters = (''endpoint'', [''x''])\<rparr>, [''x''], TestInvoke_setup)
     (\<lparr>GetFunctionAndParameters = (''endpoint'', [''x''])\<rparr>, [''x''], TestInvoke_setup)
   \<and> ignoresNext (ArgCounter [''a'', ''b''])
        \<lparr>GetFunctionAndParameters = (''endpoint'', [''x''])\<rparr> [''x''] TestInvoke_setup
   \<and> use (hIntAppender TestInvoke_router ''test'' 4)
       ([ArgCounter [''a'']] @ ArgCounter [''a'', ''b'']
          # [mwIntAppender TestInvoke_router ''test'' 3])
       \<lparr>GetFunctionAndParameters = (''endpoint'', [''x''])\<rparr> [''x''] TestInvoke_setup
     = (Inr (Error 400 ''incorrect number of arguments, expected 2: a, b''),
        TestInvoke_setup\<lparr>log := [''incorrect number of arguments, expected 2: a, b'']\<rparr>)
   \<and> ignoresNext (ArgCounter [''a'']) \<lparr>GetFunctionAndParameters = (''endpoint'', [])\<rparr> []
     (fold (\<lambda>f. f \<lparr>GetFunctionAndParameters = (''endpoint'', [])\<rparr> [])
        [\<lambda>stub args w. w\<lparr>log := log w @ [''first'']\<rparr>] TestInvoke_setup)
   \<and> use (hIntAppender TestInvoke_router ''test'' 4)
       (map thenNext [\<lambda>stub args w. w\<lparr>log := log w @ [''first'']\<rparr>]
          @ ArgCounter [''a''] # [mwIntAppender TestInvoke_router ''test'' 3])
       \<lparr>GetFunctionAndParameters = (''endpoint'', [])\<rparr> [] TestInvoke_setup
     = (Inr (Error 400 ''incorrect number of arguments, expected 1: a''),
        TestInvoke_setup\<lparr>log := [''first'', ''incorrect number of arguments, expected 1: a'']\<rparr>)
   \<and> (\<forall>stub args w. ignoresNext (\<lambda>stub args next w. (Inr (Error 403 ''forbidden''), w))
         stub args (w :: (string, nat) World))
   \<and> use (hIntAppender TestInvoke_router ''test'' 4)
        ([mwOverride] @ (\<lambda>stub args next w. (Inr (Error 403 ''forbidden''), w))
           # [mwIntAppender TestInvoke_router ''test'' 3])
     = use nilHandler
        ([mwOverride] @ (\<lambda>stub args next w. (Inr (Error 403 ''forbidden''), w)) # [])"
proof -
  let ?stub = "\<lparr>GetFunctionAndParameters = (''endpoint'', [''x''])\<rparr>"
  have d: "delegatesTo [ArgCounter [''a'']] (?stub, [''x''], TestInvoke_setup)
             (?stub, [''x''], TestInvoke_setup)"
    by (rule ArgCounter_delegates) simp
  have i: "ignoresNext (ArgCounter [''a'', ''b'']) ?stub [''x''] TestInvoke_setup"
    by (simp add: ArgCounter_ignoresNext)
  have a: "ignoresNext (ArgCounter [''a'']) \<lparr>GetFunctionAndParameters = (''endpoint'', [])\<rparr> []
     (fold (\<lambda>f. f \<lparr>GetFunctionAndParameters = (''endpoint'', [])\<rparr> [])
        [\<lambda>stub args w. w\<lparr>log := log w @ [''first'']\<rparr>] TestInvoke_setup)"
    by (simp add: ArgCounter_ignoresNext)
  have b: "\<forall>stub args w. ignoresNext (\<lambda>stub args next w. (Inr (Error 403 ''forbidden''), w))
         stub args (w :: (string, nat) World)"
    by (simp add: ignoresNext_def)
  have log0: "log TestInvoke_setup = []"
    by (simp add: TestInvoke_setup_eq)
  note package =
      short_circuit_stops_chain [where mi = "ArgCounter [''a'', ''b'']"
          and pre = "[ArgCounter [''a'']]"
          and stub = ?stub and args = "[''x'']" and w = TestInvoke_setup
          and stub' = ?stub and args' = "[''x'']" and w' = TestInvoke_setup
          and h = "hIntAppender TestInvoke_router ''test'' 4"
          and post = "[mwIntAppender TestInvoke_router ''test'' 3]"
          and nxt = nilHandler, THEN conjunct2, THEN conjunct2, THEN conjunct1]
  note delegating =
      short_circuit_stops_chain [where mi = "ArgCounter [''a'']"
          and stub = "\<lparr>GetFunctionAndParameters = (''endpoint'', [])\<rparr>" and args = "[]"
          and fs = "[\<lambda>stub args w. w\<lparr>log := log w @ [''first'']\<rparr>]"
          and w = TestInvoke_setup
          and h = "hIntAppender TestInvoke_router ''test'' 4"
          and post = "[mwIntAppender TestInvoke_router ''test'' 3]"
          and nxt = nilHandler,
          THEN conjunct2, THEN conjunct2, THEN conjunct2, THEN conjunct1]
  note always =
      short_circuit_stops_chain [where mi = "\<lambda>stub args next w. (Inr (Error 403 ''forbidden''), w)"
          and h = "hIntAppender TestInvoke_router ''test'' 4"
          and pre = "[mwOverride]"
          and post = "[mwIntAppender TestInvoke_router ''test'' 3]"
          and h' = nilHandler and post' = "[]",
          THEN conjunct2, THEN conjunct2, THEN conjunct2, THEN conjunct2]
  have first: "use (hIntAppender TestInvoke_router ''test'' 4)
       ([ArgCounter [''a'']] @ ArgCounter [''a'', ''b'']
          # [mwIntAppender TestInvoke_router ''test'' 3]) ?stub [''x''] TestInvoke_setup
     = (Inr (Error 400 ''incorrect number of arguments, expected 2: a, b''),
        TestInvoke_setup\<lparr>log := [''incorrect number of arguments, expected 2: a, b'']\<rparr>)"
    using package d i
    by (simp add: ArgCounter_mismatch Let_def formatD_def natDecimal.simps StatusBadRequest_def
        log0)
  have second: "use (hIntAppender TestInvoke_router ''test'' 4)
       (map thenNext [\<lambda>stub args w. w\<lparr>log := log w @ [''first'']\<rparr>]
          @ ArgCounter [''a''] # [mwIntAppender TestInvoke_router ''test'' 3])
       \<lparr>GetFunctionAndParameters = (''endpoint'', [])\<rparr> [] TestInvoke_setup
     = (Inr (Error 400 ''incorrect number of arguments, expected 1: a''),
        TestInvoke_setup\<lparr>log := [''first'', ''incorrect number of arguments, expected 1: a'']\<rparr>)"
    using delegating a
    by (simp add: ArgCounter_mismatch Let_def formatD_def natDecimal.simps StatusBadRequest_def
        log0)
  have third: "use (hIntAppender TestInvoke_router ''test'' 4)
        ([mwOverride] @ (\<lambda>stub args next w. (Inr (Error 403 ''forbidden''), w))
           # [mwIntAppender TestInvoke_router ''test'' 3])
     = use nilHandler
        ([mwOverride] @ (\<lambda>stub args next w. (Inr (Error 403 ''forbidden''), w)) # [])"
    using always b by blast
  show ?thesis
    using d i first a second b third by blast
qed

section \<open>The parsers\<close>

lemma indexArgs_in_range:
  "0 \<le> i \<Longrightarrow> i < int (length args) \<Longrightarrow> indexArgs args i = Inr (args ! nat i)"
  by (simp add: indexArgs_def)


lemma JSONParser_out_of_range:
  "argIndex \<ge> int (length args) \<Longrightarrow>
   JSONParser reflect_New json_Unmarshal router argIndex contextKey valueType stub args next w =
     (Inr (Error StatusInternalServerError
            (''error unmarshalling json: '' @ ''argIndex '' @ formatD argIndex
               @ '' was greater than length of args'')),
      w\<lparr>log := log w @ [''argIndex '' @ formatD argIndex @ '' was greater than length of args'']\<rparr>)"
  by (simp add: JSONParser_def Let_def)


lemma JSONParser_parse_error:
  "0 \<le> argIndex \<Longrightarrow> argIndex < int (length args) \<Longrightarrow>
   json_Unmarshal (args ! nat argIndex) (reflect_New valueType) = (Some e, obj) \<Longrightarrow>
   JSONParser reflect_New json_Unmarshal router argIndex contextKey valueType stub args next w =
     (Inr (Error StatusBadRequest (''error unmarshalling json: '' @ e)),
      w\<lparr>heap := heap w @ [obj], log := log w @ [e]\<rparr>)"
  by (simp add: JSONParser_def indexArgs_in_range Let_def)

lemma JSONParser_success:
  "0 \<le> argIndex \<Longrightarrow> argIndex < int (length args) \<Longrightarrow>
   json_Unmarshal (args ! nat argIndex) (reflect_New valueType) = (None, obj) \<Longrightarrow>
   Context router = Some a \<Longrightarrow> a < length (mapStore w) \<Longrightarrow>
   JSONParser reflect_New json_Unmarshal router argIndex contextKey valueType stub args next w =
     next stub args
       (w\<lparr>heap := heap w @ [obj],
          mapStore := (mapStore w)[a :=
                    (mapStore w ! a)(contextKey \<mapsto> Pointer (length (heap w)))]\<rparr>)"
  by (simp add: JSONParser_def indexArgs_in_range Let_def mapAssign_def)

lemma JSONParser_nil_context:
  "0 \<le> argIndex \<Longrightarrow> argIndex < int (length args) \<Longrightarrow>
   json_Unmarshal (args ! nat argIndex) (reflect_New valueType) = (None, obj) \<Longrightarrow>
   \<not> mapExists (Context router) w \<Longrightarrow>
   JSONParser reflect_New json_Unmarshal router argIndex contextKey valueType stub args next w =
     (Inl NilMapAssignment, w\<lparr>heap := heap w @ [obj]\<rparr>)"
  by (simp add: JSONParser_def indexArgs_in_range Let_def mapAssign_def mapExists_def
      split: option.splits)




text \<open>
  Against C6 as it is stated: the Router that the middleware holds may be the zero value,
  whose context map is nil. The argument parses, the assignment to the context panics, and
  "next" (here \<open>hSuccess\<close>, which would answer 200) is not invoked.
\<close>

theorem JSONParser_nil_context_counterexample:
  "textUnmarshal ([''{}''] ! nat 0) (textNew ()) = (None, ''{}'')
   \<and> JSONParser textNew textUnmarshal zeroRouter 0 ''value'' ()
        \<lparr>GetFunctionAndParameters = (''endpoint'', [''{}''])\<rparr> [''{}''] hSuccess emptyWorld
       = (Inl NilMapAssignment, emptyWorld\<lparr>heap := [''{}'']\<rparr>)"
proof -
  have parsed: "textUnmarshal ([''{}''] ! nat 0) (textNew ()) = (None, ''{}'')"
    by (simp add: textUnmarshal_def)
  have "JSONParser textNew textUnmarshal zeroRouter 0 ''value'' ()
        \<lparr>GetFunctionAndParameters = (''endpoint'', [''{}''])\<rparr> [''{}''] hSuccess emptyWorld
       = (Inl NilMapAssignment, emptyWorld\<lparr>heap := heap emptyWorld @ [''{}'']\<rparr>)"
    using parsed by (intro JSONParser_nil_context) (simp_all add: mapExists_def zeroRouter_def)
  then show ?thesis
    using parsed by (simp add: emptyWorld_def)
qed

text \<open>
  C6, amended: \<open>JSONParser\<close>, with \<open>argIndex >= len(args)\<close>, returns and logs a 500 error that
  names the index, leaving the context as it was, whatever "next" is; with an index in
  range and an argument that fails to parse it returns and logs a 400 error, again
  leaving the context as it was, whatever "next" is; with an argument that parses, when
  the context map of the Router it holds exists (as for every Router that \<open>NewRouter\<close>
  made), it stores under the key the pointer to the object that was unmarshalled into (the
  address that \<open>reflect.New\<close> allocated) and returns what "next" returns on that world;
  when that context map is nil (a zero-valued Router), the assignment panics, nothing is
  stored and "next" is not invoked.
\<close>

theorem JSONParser_cases:
  "(argIndex \<ge> int (length args) \<longrightarrow>
      JSONParser reflect_New json_Unmarshal router argIndex contextKey valueType stub args nxt w =
        (Inr (Error 500 (''error unmarshalling json: argIndex '' @ formatD argIndex
                           @ '' was greater than length of args'')),
         w\<lparr>log := log w @ [''argIndex '' @ formatD argIndex
                               @ '' was greater than length of args'']\<rparr>))
   \<and> (0 \<le> argIndex \<and> argIndex < int (length args)
        \<and> json_Unmarshal (args ! nat argIndex) (reflect_New valueType) = (Some e, obj) \<longrightarrow>
      JSONParser reflect_New json_Unmarshal router argIndex contextKey valueType stub args nxt w =
        (Inr (Error 400 (''error unmarshalling json: '' @ e)),
         w\<lparr>heap := heap w @ [obj], log := log w @ [e]\<rparr>))
   \<and> (0 \<le> argIndex \<and> argIndex < int (length args)
        \<and> json_Unmarshal (args ! nat argIndex) (reflect_New valueType) = (None, obj)
        \<and> Context router = Some a \<and> a < length (mapStore w) \<longrightarrow>
      JSONParser reflect_New json_Unmarshal router argIndex contextKey valueType stub args nxt w =
        nxt stub args
          (w\<lparr>heap := heap w @ [obj],
             mapStore := (mapStore w)[a :=
                       (mapStore w ! a)(contextKey \<mapsto> Pointer (length (heap w)))]\<rparr>))
   \<and> (0 \<le> argIndex \<and> argIndex < int (length args)
        \<and> json_Unmarshal (args ! nat argIndex) (reflect_New valueType) = (None, obj)
        \<and> \<not> mapExists (Context router) w \<longrightarrow>
      JSONParser reflect_New json_Unmarshal router argIndex contextKey valueType stub args nxt w =
        (Inl NilMapAssignment, w\<lparr>heap := heap w @ [obj]\<rparr>))"
proof (intro conjI impI)
  assume "argIndex \<ge> int (length args)"
  then show "JSONParser reflect_New json_Unmarshal router argIndex contextKey valueType stub args nxt w =
        (Inr (Error 500 (''error unmarshalling json: argIndex '' @ formatD argIndex
                           @ '' was greater than length of args'')),
         w\<lparr>log := log w @ [''argIndex '' @ formatD argIndex
                               @ '' was greater than length of args'']\<rparr>)"
    by (simp add: JSONParser_out_of_range StatusInternalServerError_def)
next
  assume "0 \<le> argIndex \<and> argIndex < int (length args)
        \<and> json_Unmarshal (args ! nat argIndex) (reflect_New valueType) = (Some e, obj)"
  then show "JSONParser reflect_New json_Unmarshal router argIndex contextKey valueType stub args nxt w =
        (Inr (Error 400 (''error unmarshalling json: '' @ e)),
         w\<lparr>heap := heap w @ [obj], log := log w @ [e]\<rparr>)"
    using JSONParser_parse_error [of argIndex args json_Unmarshal reflect_New valueType e obj]
    by (simp add: StatusBadRequest_def)
next
  assume "0 \<le> argIndex \<and> argIndex < int (length args)
        \<and> json_Unmarshal (args ! nat argIndex) (reflect_New valueType) = (None, obj)
        \<and> Context router = Some a \<and> a < length (mapStore w)"
  then show "JSONParser reflect_New json_Unmarshal router argIndex contextKey valueType stub args nxt w =
        nxt stub args
          (w\<lparr>heap := heap w @ [obj],
             mapStore := (mapStore w)[a :=
                       (mapStore w ! a)(contextKey \<mapsto> Pointer (length (heap w)))]\<rparr>)"
    using JSONParser_success [of argIndex args json_Unmarshal reflect_New valueType obj router a w]
    by simp
next
  assume "0 \<le> argIndex \<and> argIndex < int (length args)
        \<and> json_Unmarshal (args ! nat argIndex) (reflect_New valueType) = (None, obj)
        \<and> \<not> mapExists (Context router) w"
  then show "JSONParser reflect_New json_Unmarshal router argIndex contextKey valueType stub args nxt w =
        (Inl NilMapAssignment, w\<lparr>heap := heap w @ [obj]\<rparr>)"
    using JSONParser_nil_context [of argIndex args json_Unmarshal reflect_New valueType obj router w]
    by simp
qed

theorem JSONParser_cases_witness:
  "(1::int) \<ge> int (length [''{}''])
   \<and> JSONParser textNew textUnmarshal TestInvoke_router 1 ''value'' ()
        \<lparr>GetFunctionAndParameters = (''endpoint'', [''{}''])\<rparr> [''{}''] nilHandler
        TestInvoke_setup
     = (Inr (Error 500 ''error unmarshalling json: argIndex 1 was greater than length of args''),
        TestInvoke_setup\<lparr>log := [''argIndex 1 was greater than length of args'']\<rparr>)
   \<and> (0::int) \<le> 0 \<and> (0::int) < int (length [''{''])
   \<and> textUnmarshal ([''{''] ! nat 0) (textNew ()) = (Some ''invalid character'', [])
   \<and> JSONParser textNew textUnmarshal TestInvoke_router 0 ''value'' ()
        \<lparr>GetFunctionAndParameters = (''endpoint'', [''{''])\<rparr> [''{''] nilHandler
        TestInvoke_setup
     = (Inr (Error 400 ''error unmarshalling json: invalid character''),
        TestInvoke_setup\<lparr>heap := [[]], log := [''invalid character'']\<rparr>)
   \<and> (0::int) < int (length [''{}''])
   \<and> textUnmarshal ([''{}''] ! nat 0) (textNew ()) = (None, ''{}'')
   \<and> Context TestInvoke_router = Some 0 \<and> 0 < length (mapStore TestInvoke_setup)
   \<and> JSONParser textNew textUnmarshal TestInvoke_router 0 ''value'' ()
        \<lparr>GetFunctionAndParameters = (''endpoint'', [''{}''])\<rparr> [''{}'']
        (hIntAppender TestInvoke_router ''test'' 4)
        TestInvoke_setup
     = (Inr (Success 200 []),
        TestInvoke_setup
          \<lparr>mapStore := [[''value'' \<mapsto> Pointer 0, ''test'' \<mapsto> IntSlice [4]]],
            heap := [''{}'']\<rparr>)
   \<and> \<not> mapExists (Context zeroRouter) emptyWorld
   \<and> JSONParser textNew textUnmarshal zeroRouter 0 ''value'' ()
        \<lparr>GetFunctionAndParameters = (''endpoint'', [''{}''])\<rparr> [''{}''] hSuccess emptyWorld
       = (Inl NilMapAssignment, emptyWorld\<lparr>heap := [''{}'']\<rparr>)"
  using
    JSONParser_cases [where argIndex = 1 and args = "[''{}'']" and reflect_New = textNew
          and json_Unmarshal = textUnmarshal
          and router = TestInvoke_router and contextKey = "''value''" and valueType = "()"
          and stub = "\<lparr>GetFunctionAndParameters = (''endpoint'', [''{}''])\<rparr>"
          and nxt = nilHandler and w = TestInvoke_setup, THEN conjunct1]
    JSONParser_cases [where argIndex = 0 and args = "[''{'']" and reflect_New = textNew
          and json_Unmarshal = textUnmarshal
          and router = TestInvoke_router and contextKey = "''value''" and valueType = "()"
          and stub = "\<lparr>GetFunctionAndParameters = (''endpoint'', [''{''])\<rparr>"
          and nxt = nilHandler and w = TestInvoke_setup
          and e = "''invalid character''" and obj = "[]", THEN conjunct2, THEN conjunct1]
    JSONParser_cases [where argIndex = 0 and args = "[''{}'']" and reflect_New = textNew
          and json_Unmarshal = textUnmarshal
          and router = TestInvoke_router and contextKey = "''value''" and valueType = "()"
          and stub = "\<lparr>GetFunctionAndParameters = (''endpoint'', [''{}''])\<rparr>"
          and nxt = "hIntAppender TestInvoke_router ''test'' 4"
          and w = TestInvoke_setup and obj = "''{}''" and a = 0,
          THEN conjunct2, THEN conjunct2, THEN conjunct1]
    JSONParser_cases [where argIndex = 0 and args = "[''{}'']" and reflect_New = textNew
          and json_Unmarshal = textUnmarshal
          and router = zeroRouter and contextKey = "''value''" and valueType = "()"
          and stub = "\<lparr>GetFunctionAndParameters = (''endpoint'', [''{}''])\<rparr>"
          and nxt = hSuccess
          and w = emptyWorld and obj = "''{}''",
          THEN conjunct2, THEN conjunct2, THEN conjunct2]
  by (simp add: TestInvoke_setup_eq TestInvoke_router_eq mapAssign_def mapIndex_def
      hIntAppender_def formatD_def natDecimal.simps textNew_def textUnmarshal_def
      mapExists_def zeroRouter_def emptyWorld_def)



end
